theory Spec2Isabelle
  imports Complex_Main "HOL-Library.List_Lexorder"
begin

section \<open>Python values\<close>

text \<open>
  A Python \<open>str\<close> is a sequence of Unicode code points, and \<open>len\<close>, slicing and
  \<open>replace\<close> count code points. The report's store names and many literals of
  \<open>app/services/report.py\<close> are Chinese, so a \<open>str\<close> is modelled as the list of its
  code points. Column names of result rows are ASCII and are kept as HOL strings.
\<close>

type_synonym pystr = "nat list"

definition ascii :: "string \<Rightarrow> pystr" where
  "ascii s = map of_char s"

text \<open>
  Numbers: a Python \<open>int\<close> is unbounded; a \<open>float\<close> (and the \<open>Decimal\<close> that the
  database driver returns for sums) is modelled by the rational number it stands for, so
  binary rounding error is not part of the model. The tag is kept because \<open>str\<close> prints
  \<open>0\<close> and \<open>0.0\<close> differently and \<open>round\<close> keeps an \<open>int\<close> an \<open>int\<close>.
\<close>

datatype pynum = PInt int | PFloat rat

fun num_val :: "pynum \<Rightarrow> rat" where
  "num_val (PInt i) = of_int i"
| "num_val (PFloat q) = q"

text \<open>
  The exceptions that the modelled code can raise. The report functions raise the
  builtin \<open>ValueError\<close> when a query finds no rows; the HTTP layer turns it into status
  400 (the specification calls this condition \<open>NoDataError\<close>).
\<close>

datatype error = ValueError | TypeError | ZeroDivisionError

fun bind_res :: "error + 'a \<Rightarrow> ('a \<Rightarrow> error + 'b) \<Rightarrow> error + 'b" where
  "bind_res (Inl e) f = Inl e"
| "bind_res (Inr x) f = f x"

text \<open>Truth value of a number (\<open>if x\<close>, \<open>x and ...\<close>, \<open>x or ...\<close>).\<close>

definition truthy :: "pynum \<Rightarrow> bool" where
  "truthy x = (num_val x \<noteq> 0)"

fun py_add :: "pynum \<Rightarrow> pynum \<Rightarrow> pynum" where
  "py_add (PInt a) (PInt b) = PInt (a + b)"
| "py_add a b = PFloat (num_val a + num_val b)"

fun py_sub :: "pynum \<Rightarrow> pynum \<Rightarrow> pynum" where
  "py_sub (PInt a) (PInt b) = PInt (a - b)"
| "py_sub a b = PFloat (num_val a - num_val b)"

fun py_mul :: "pynum \<Rightarrow> pynum \<Rightarrow> pynum" where
  "py_mul (PInt a) (PInt b) = PInt (a * b)"
| "py_mul a b = PFloat (num_val a * num_val b)"

text \<open>True division \<open>a / b\<close>: always a float, \<open>ZeroDivisionError\<close> on a zero divisor.\<close>

definition py_truediv :: "pynum \<Rightarrow> pynum \<Rightarrow> error + pynum" where
  "py_truediv a b =
     (if num_val b = 0 then Inl ZeroDivisionError
      else Inr (PFloat (num_val a / num_val b)))"

text \<open>
  \<open>round(x, n)\<close> rounds half to even at \<open>n\<close> decimals; an \<open>int\<close> is returned
  unchanged for \<open>n \<ge> 0\<close>.
\<close>

definition round_half_even :: "rat \<Rightarrow> int" where
  "round_half_even x =
     (let f = \<lfloor>x\<rfloor>; d = x - of_int f
      in if d < 1 / 2 then f
         else if 1 / 2 < d then f + 1
         else if even f then f else f + 1)"

fun py_round :: "pynum \<Rightarrow> nat \<Rightarrow> pynum" where
  "py_round (PInt i) n = PInt i"
| "py_round (PFloat q) n = PFloat (of_int (round_half_even (q * 10 ^ n)) / 10 ^ n)"

subsection \<open>Printing and reading numbers\<close>

fun str_nat :: "nat \<Rightarrow> pystr" where
  "str_nat n = (if n < 10 then [48 + n] else str_nat (n div 10) @ [48 + n mod 10])"

declare str_nat.simps [simp del]

definition str_int :: "int \<Rightarrow> pystr" where
  "str_int i = (if i < 0 then 45 # str_nat (nat (- i)) else str_nat (nat i))"

text \<open>
  \<open>str\<close> of a float that holds a value with one decimal, as \<open>round(x, 1)\<close> returns
  it: Python prints the integer part, a point and the one digit (for magnitudes below
  \<open>1e16\<close>; the report's percentages are far below). Negative zero is not modelled.
\<close>

definition repr_float1 :: "rat \<Rightarrow> pystr" where
  "repr_float1 q =
     (if q < 0 then [45] else []) @ str_nat (nat \<lfloor>\<bar>q\<bar>\<rfloor>) @ [46] @
     str_nat (nat (\<lfloor>\<bar>q\<bar> * 10\<rfloor> mod 10))"

text \<open>\<open>str(x)\<close> of a number (exact for an \<open>int\<close>, and for a float with one decimal).\<close>

fun py_str_num :: "pynum \<Rightarrow> pystr" where
  "py_str_num (PInt i) = str_int i"
| "py_str_num (PFloat q) = repr_float1 q"

text \<open>The f-string \<open>f"{x}%"\<close>.\<close>

definition fmt_pct :: "pynum \<Rightarrow> pystr" where
  "fmt_pct x = py_str_num x @ [37]"

text \<open>\<open>s.rstrip(c)\<close> for a single character \<open>c\<close>.\<close>

definition rstrip :: "nat \<Rightarrow> pystr \<Rightarrow> pystr" where
  "rstrip c s = rev (dropWhile (\<lambda>x. x = c) (rev s))"

fun parse_digits :: "nat \<Rightarrow> pystr \<Rightarrow> nat option" where
  "parse_digits acc [] = Some acc"
| "parse_digits acc (c # cs) =
     (if 48 \<le> c \<and> c \<le> 57 then parse_digits (acc * 10 + (c - 48)) cs else None)"

definition parse_nat :: "pystr \<Rightarrow> nat option" where
  "parse_nat s = (if s = [] then None else parse_digits 0 s)"

text \<open>
  \<open>float(s)\<close> on the decimal forms that the report prints: an optional minus sign,
  digits, and optionally a point followed by digits. Python accepts more (exponents,
  blanks, \<open>inf\<close>); every other text is a \<open>ValueError\<close> here.
\<close>

definition py_float :: "pystr \<Rightarrow> error + pynum" where
  "py_float s =
     (let neg = (s \<noteq> [] \<and> hd s = 45);
          body = (if neg then tl s else s);
          ip = takeWhile (\<lambda>c. c \<noteq> 46) body;
          rest = dropWhile (\<lambda>c. c \<noteq> 46) body;
          sgn = (if neg then - 1 else 1)
      in case parse_nat ip of
           None \<Rightarrow> Inl ValueError
         | Some i \<Rightarrow>
             (case rest of
                [] \<Rightarrow> Inr (PFloat (sgn * of_nat i))
              | p # fr \<Rightarrow>
                  (case parse_nat fr of
                     None \<Rightarrow> Inl ValueError
                   | Some f \<Rightarrow>
                       Inr (PFloat (sgn * (of_nat i + of_nat f / 10 ^ length fr))))))"

section \<open>Helper functions of the report module\<close>

text \<open>
  \<open>clean_sheet_name(name, max_length=31)\<close>: an empty (or \<open>None\<close>) name gives
  \<open>"Sheet"\<close>; the characters \<open>\ / * ? : [ ]\<close> are removed; the rest is cut to
  \<open>max_length\<close> code points; an empty result gives \<open>"Sheet"\<close>.
\<close>

definition illegal_chars :: "nat list" where
  "illegal_chars = [92, 47, 42, 63, 58, 91, 93]"

definition clean_sheet_name :: "pystr \<Rightarrow> nat \<Rightarrow> pystr" where
  "clean_sheet_name name max_length =
     (if name = [] then ascii ''Sheet''
      else
        let name1 = filter (\<lambda>c. c \<notin> set illegal_chars) name;
            name2 = (if length name1 > max_length then take max_length name1 else name1)
        in if name2 = [] then ascii ''Sheet'' else name2)"

text \<open>
  \<open>calc_rate(numerator, denominator)\<close> and \<open>calc_avg_price(total, count)\<close>. An
  argument may be \<open>None\<close>. \<open>denominator and denominator > 0\<close> is evaluated left to
  right: \<open>None\<close> and \<open>0\<close> are false, and only then is the comparison made. A \<open>None\<close>
  numerator makes the division raise \<open>TypeError\<close>.
\<close>

definition calc_rate :: "pynum option \<Rightarrow> pynum option \<Rightarrow> error + pynum" where
  "calc_rate numerator denominator =
     (case denominator of
        None \<Rightarrow> Inr (PInt 0)
      | Some d \<Rightarrow>
          if truthy d \<and> 0 < num_val d then
            (case numerator of
               None \<Rightarrow> Inl TypeError
             | Some n \<Rightarrow>
                 bind_res (py_truediv n d)
                   (\<lambda>q. Inr (py_round (py_mul q (PInt 100)) 1)))
          else Inr (PInt 0))"

definition calc_avg_price :: "pynum option \<Rightarrow> pynum option \<Rightarrow> error + pynum" where
  "calc_avg_price total' count =
     (case count of
        None \<Rightarrow> Inr (PInt 0)
      | Some c \<Rightarrow>
          if truthy c \<and> 0 < num_val c then
            (case total' of
               None \<Rightarrow> Inl TypeError
             | Some t \<Rightarrow> bind_res (py_truediv t c) (\<lambda>q. Inr (py_round q 2)))
          else Inr (PInt 0))"

text \<open>
  A row of a query result is a Python dict keyed by column name. Its identifying columns
  are fields of the record; \<open>col\<close> holds the numeric columns by name, \<open>None\<close> for SQL
  \<open>NULL\<close> (which \<open>row.get(key)\<close> also returns for a column the row does not have).
\<close>

record row =
  shop_id :: pystr
  shop_name :: "pystr option"
  col :: "string \<Rightarrow> pynum option"

text \<open>
  \<open>safe_get_val(data, key, default=0)\<close>. The callers pass \<open>week_data.get(shop_id, {})\<close>:
  a fetched row, or the empty dict when the store has no row in that period. A fetched
  row always holds its \<open>shop_id\<close>, so \<open>not data\<close> is true exactly for the empty dict,
  which is \<open>None\<close> here.
\<close>

definition safe_get_val :: "row option \<Rightarrow> string \<Rightarrow> pynum \<Rightarrow> pynum" where
  "safe_get_val data key default' =
     (case data of
        None \<Rightarrow> default'
      | Some r \<Rightarrow> (case col r key of None \<Rightarrow> default' | Some v \<Rightarrow> v))"

section \<open>The relational data and the outside world\<close>

text \<open>
  Decoded JSON, as \<open>json.loads\<close> returns it (a Python object). A cell of a JSON column
  is such an object too: \<open>JStr\<close> when the driver hands over the raw text.
\<close>

datatype json =
  JNull | JBool bool | JNum pynum | JStr pystr | JList "json list" | JDict "(pystr \<times> json) list"

fun json_truthy :: "json \<Rightarrow> bool" where
  "json_truthy JNull = False"
| "json_truthy (JBool b) = b"
| "json_truthy (JNum n) = truthy n"
| "json_truthy (JStr s) = (s \<noteq> [])"
| "json_truthy (JList xs) = (xs \<noteq> [])"
| "json_truthy (JDict kvs) = (kvs \<noteq> [])"

text \<open>
  Table \<open>platform_accounts\<close>, left-joined with \<open>saas_users\<close> on the operator
  (\<open>operator_name\<close> is \<open>su.name\<close>, \<open>NULL\<close> without a matching user).
\<close>

record account_row =
  account :: pystr
  stores_json :: "json option"
  compareRegions_json :: "json option"
  sales_name :: "pystr option"
  city_name :: "pystr option"
  operator_name :: "pystr option"

text \<open>
  A row that carries a day: a row of table \<open>kewen_daily_report\<close>, and a row of the
  join of the report queries. Dates are ISO texts \<open>YYYY-MM-DD\<close>, whose lexicographic
  order is the order of the days.
\<close>

record table_row = row +
  report_date :: pystr
  intent_rate :: "pystr option"

text \<open>
  A row of \<open>promotion_daily_report\<close> or of \<open>store_stats\<close>: the store, the day and
  the numeric columns by name. A row of \<open>kewen_daily_report\<close> is a \<open>table_row\<close> whose
  columns carry their plain names.
\<close>

record side_row =
  side_shop :: pystr
  side_date :: pystr
  side_col :: "string \<Rightarrow> pynum option"

record database =
  accounts_tbl :: "account_row list"
  kewen_daily_report :: "table_row list"
  promotion_daily_report :: "side_row list"
  store_stats :: "side_row list"

text \<open>
  \<open>FROM kewen_daily_report k LEFT JOIN promotion_daily_report p ON ... LEFT JOIN
  store_stats s ON ...\<close>: both conditions compare the store and the day with those of
  \<open>k\<close>, so a \<open>k\<close> row is paired with each matching \<open>p\<close> row (or with \<open>NULL\<close>s when
  there is none) and each matching \<open>s\<close> row (likewise). The columns of a joined row are
  named with their table.
\<close>

definition matches :: "side_row list \<Rightarrow> table_row \<Rightarrow> side_row option list" where
  "matches tbl k =
     (let ms = filter (\<lambda>x. side_shop x = shop_id k \<and> side_date x = report_date k) tbl
      in if ms = [] then [None] else map Some ms)"

definition side_get :: "side_row option \<Rightarrow> string \<Rightarrow> pynum option" where
  "side_get x c = (case x of None \<Rightarrow> None | Some r \<Rightarrow> side_col r c)"

definition join_row :: "table_row \<Rightarrow> side_row option \<Rightarrow> side_row option \<Rightarrow> table_row" where
  "join_row k p s =
     \<lparr>shop_id = shop_id k, shop_name = shop_name k,
      col = (\<lambda>c. if take 2 c = ''k.'' then col k (drop 2 c)
                 else if take 2 c = ''p.'' then side_get p (drop 2 c)
                 else if take 2 c = ''s.'' then side_get s (drop 2 c)
                 else None),
      report_date = report_date k, intent_rate = intent_rate k\<rparr>"

definition joined :: "database \<Rightarrow> table_row list" where
  "joined db =
     concat (map (\<lambda>k.
        concat (map (\<lambda>p. map (\<lambda>s. join_row k p s) (matches (store_stats db) k))
                  (matches (promotion_daily_report db) k)))
       (kewen_daily_report db))"

text \<open>
  What the module takes from outside: \<open>json.loads\<close> (\<open>None\<close> when it raises
  \<open>JSONDecodeError\<close>), Python's \<open>str\<close> on a decoded JSON value that is a float, a
  list or a dict, the calendar of \<open>datetime\<close> (the day of the week of a date, and the
  date a number of days earlier), the clock and \<open>uuid4\<close> behind the file name, and
  \<open>settings.TEMP_DIR\<close>.
\<close>

datatype weekday = Mon | Tue | Wed | Thu | Fri | Sat | Sun

record env =
  json_loads :: "pystr \<Rightarrow> json option"
  py_str :: "json \<Rightarrow> pystr"
  weekday_of :: "pystr \<Rightarrow> weekday"
  days_before :: "pystr \<Rightarrow> nat \<Rightarrow> pystr"
  now_stamp :: pystr
  uuid8 :: pystr
  temp_dir :: pystr

text \<open>\<open>str(x)\<close>, also what an f-string prints, for a decoded JSON value.\<close>

definition json_str :: "env \<Rightarrow> json \<Rightarrow> pystr" where
  "json_str e x =
     (case x of
        JStr s \<Rightarrow> s
      | JNull \<Rightarrow> ascii ''None''
      | JBool b \<Rightarrow> (if b then ascii ''True'' else ascii ''False'')
      | JNum (PInt i) \<Rightarrow> str_int i
      | _ \<Rightarrow> py_str e x)"

definition generate_temp_filename :: "env \<Rightarrow> pystr \<Rightarrow> pystr" where
  "generate_temp_filename e prefix =
     temp_dir e @ ascii ''/'' @ prefix @ ascii ''_'' @ now_stamp e @ ascii ''_'' @ uuid8 e @
     ascii ''.xlsx''"

subsection \<open>Decoding the accounts' blobs\<close>

text \<open>
  \<open>stores = json.loads(x) if isinstance(x, str) else x\<close> inside \<open>try\<close>: \<open>None\<close> when
  the decoder raises, which the \<open>except\<close> clause swallows.
\<close>

definition load_blob :: "env \<Rightarrow> json \<Rightarrow> json option" where
  "load_blob e x = (case x of JStr s \<Rightarrow> json_loads e s | _ \<Rightarrow> Some x)"

text \<open>\<open>d.get(key, default)\<close> on a decoded JSON object.\<close>

definition dict_get :: "(pystr \<times> json) list \<Rightarrow> pystr \<Rightarrow> json \<Rightarrow> json" where
  "dict_get kvs key default' = (case map_of kvs key of None \<Rightarrow> default' | Some v \<Rightarrow> v)"

text \<open>
  The loop over the stores of one account, shared by \<open>generate_daily_report\<close> and
  \<open>get_shop_info_mapping\<close>: the non-empty \<open>str(store.get('shop_id', ''))\<close> of every
  element that is a dict, when the blob is true and decodes to a list.
\<close>

definition store_ids :: "env \<Rightarrow> json list \<Rightarrow> pystr list" where
  "store_ids e stores =
     concat (map (\<lambda>store.
        case store of
          JDict kvs \<Rightarrow>
            (let shop_id = json_str e (dict_get kvs (ascii ''shop_id'') (JStr []))
             in if shop_id \<noteq> [] then [shop_id] else [])
        | _ \<Rightarrow> []) stores)"

text \<open>The stores of one account: none for a \<open>NULL\<close>, empty, undecodable or
  non-list blob.\<close>

definition account_store_ids :: "env \<Rightarrow> json option \<Rightarrow> pystr list" where
  "account_store_ids e blob =
     (case blob of
        None \<Rightarrow> []
      | Some x \<Rightarrow>
          if json_truthy x then
            (case load_blob e x of
               Some (JList stores) \<Rightarrow> store_ids e stores
             | _ \<Rightarrow> [])
          else [])"

text \<open>\<open>x or ''\<close> on a nullable text.\<close>

definition or_empty :: "pystr option \<Rightarrow> pystr" where
  "or_empty x = (case x of None \<Rightarrow> [] | Some s \<Rightarrow> s)"

text \<open>The SQL condition \<open>pa.account IN (...)\<close>, added only when \<open>accounts\<close> is true.\<close>

definition account_selected :: "pystr list option \<Rightarrow> account_row \<Rightarrow> bool" where
  "account_selected accounts a =
     (case accounts of
        None \<Rightarrow> True
      | Some accs \<Rightarrow> if accs = [] then True else account a \<in> set accs)"

text \<open>
  \<open>get_shop_info_mapping(accounts)\<close>: the accounts with a stores blob (of the named
  accounts, when \<open>accounts\<close> is true), and for each of their stores the account's
  operator, sales owner and city; a later account replaces an earlier entry.
\<close>

record shop_info =
  operator :: pystr
  sales :: pystr
  city :: pystr

definition get_shop_info_mapping ::
  "env \<Rightarrow> database \<Rightarrow> pystr list option \<Rightarrow> (pystr \<Rightarrow> shop_info option)" where
  "get_shop_info_mapping e db accounts =
     (let account_results =
            filter (\<lambda>a. stores_json a \<noteq> None \<and> account_selected accounts a) (accounts_tbl db)
      in foldl (\<lambda>shop_mapping a.
            foldl (\<lambda>m sid.
               m(sid \<mapsto> \<lparr>operator = or_empty (operator_name a),
                          sales = or_empty (sales_name a),
                          city = or_empty (city_name a)\<rparr>))
              shop_mapping (account_store_ids e (stores_json a)))
           Map.empty account_results)"

text \<open>
  \<open>get_region_info_mapping(accounts)\<close>: per store of the regions blob (a dict keyed by
  store), the \<open>regionName\<close> of its city, district and business zone, each the empty
  text when a level is missing or is no dict. The names are kept as decoded.
\<close>

record region_info =
  region_city :: json
  region_district :: json
  region_business :: json

definition region_name :: "json \<Rightarrow> json" where
  "region_name info = (case info of JDict kvs \<Rightarrow> dict_get kvs (ascii ''regionName'') (JStr []) | _ \<Rightarrow> JStr [])"

definition region_entries :: "env \<Rightarrow> json option \<Rightarrow> (pystr \<times> region_info) list" where
  "region_entries e blob =
     (case blob of
        None \<Rightarrow> []
      | Some x \<Rightarrow>
          if json_truthy x then
            (case load_blob e x of
               Some (JDict regions) \<Rightarrow>
                 concat (map (\<lambda>(sid, shop_data).
                    case shop_data of
                      JDict sd \<Rightarrow>
                        (case dict_get sd (ascii ''regions'') (JDict []) of
                           JDict rd \<Rightarrow>
                             [(sid,
                               \<lparr>region_city = region_name (dict_get rd (ascii ''city'') (JDict [])),
                                region_district = region_name (dict_get rd (ascii ''district'') (JDict [])),
                                region_business = region_name (dict_get rd (ascii ''business'') (JDict []))\<rparr>)]
                         | _ \<Rightarrow> [])
                    | _ \<Rightarrow> []) regions)
             | _ \<Rightarrow> [])
          else [])"

definition get_region_info_mapping ::
  "env \<Rightarrow> database \<Rightarrow> pystr list option \<Rightarrow> (pystr \<Rightarrow> region_info option)" where
  "get_region_info_mapping e db accounts =
     (let account_results =
            filter (\<lambda>a. compareRegions_json a \<noteq> None \<and> account_selected accounts a)
              (accounts_tbl db)
      in foldl (\<lambda>region_mapping a.
            foldl (\<lambda>m (sid, info). m(sid \<mapsto> info))
              region_mapping (region_entries e (compareRegions_json a)))
           Map.empty account_results)"

section \<open>The comparative (weekly, monthly, custom) report\<close>

subsection \<open>The query\<close>

text \<open>
  \<open>SUM(c)\<close> over a group: the sum of the values that are not \<open>NULL\<close>, and \<open>NULL\<close>
  when there is none (a store without promotion rows in the period).
\<close>

definition sql_sum :: "pynum option list \<Rightarrow> pynum option" where
  "sql_sum vs =
     (case List.map_filter (\<lambda>v. v) vs of
        [] \<Rightarrow> None
      | x # xs \<Rightarrow> Some (foldl py_add x xs))"

text \<open>The select list of \<open>sql_week\<close>: alias and summed column.\<close>

definition weekly_columns :: "(string \<times> string) list" where
  "weekly_columns =
     [(''verify_after_discount'', ''k.verify_after_discount''),
      (''exposure_users'', ''k.exposure_users''),
      (''visit_users'', ''k.visit_users''),
      (''order_users'', ''k.order_users''),
      (''order_coupon_count'', ''k.order_coupon_count''),
      (''verify_users'', ''k.verify_person_count''),
      (''verify_coupon_count'', ''k.verify_coupon_count''),
      (''order_sale_amount'', ''k.order_sale_amount''),
      (''verify_sale_amount'', ''k.verify_sale_amount''),
      (''coupon_orders'', ''k.coupon_pay_order_count''),
      (''phone_clicks'', ''p.view_phone_count''),
      (''promotion_cost'', ''k.promotion_cost''),
      (''promotion_exposure'', ''k.promotion_exposure_count''),
      (''promotion_clicks'', ''k.promotion_click_count''),
      (''promotion_orders'', ''p.order_count''),
      (''view_groupbuy'', ''p.view_groupbuy_count''),
      (''view_phone'', ''p.view_phone_count''),
      (''consult_users'', ''k.consult_users''),
      (''address_clicks'', ''p.view_address_count''),
      (''new_collect'', ''k.new_collect_users''),
      (''new_good_reviews'', ''k.new_good_review_count''),
      (''new_reviews'', ''k.new_review_count''),
      (''checkin_count'', ''s.checkin_count'')]"

text \<open>
  \<open>sql_week\<close> with its two parameters: the joined rows whose date lies in the closed
  range, grouped by \<open>(shop_id, shop_name)\<close>, one result row per group with the sums,
  ordered by \<open>shop_id\<close> (here by code points; the query leaves the order of two
  groups of one store open).
\<close>

definition sql_week :: "table_row list \<Rightarrow> pystr \<Rightarrow> pystr \<Rightarrow> row list" where
  "sql_week tbl start_date end_date =
     (let rs = filter (\<lambda>r. start_date \<le> report_date r \<and> report_date r \<le> end_date) tbl;
          groups = sort_key fst (remdups (map (\<lambda>r. (shop_id r, shop_name r)) rs))
      in map (\<lambda>(sid, name).
            let grp = filter (\<lambda>r. shop_id r = sid \<and> shop_name r = name) rs
            in \<lparr>shop_id = sid, shop_name = name,
                col = (\<lambda>alias.
                  case map_of weekly_columns alias of
                    None \<Rightarrow> None
                  | Some src \<Rightarrow> sql_sum (map (\<lambda>r. col r src) grp))\<rparr>) groups)"

text \<open>\<open>{row['shop_id']: row for row in cursor.fetchall()}\<close>: a later row replaces an
  earlier one with the same key.\<close>

definition dict_of_rows :: "row list \<Rightarrow> (pystr \<Rightarrow> row option)" where
  "dict_of_rows rows = map_of (rev (map (\<lambda>r. (shop_id r, r)) rows))"

subsection \<open>The values of one store\<close>

text \<open>The variables \<open>w1_...\<close> (and \<open>w2_...\<close>) that the loop body computes from the
  store's row of one period, and the variables \<open>diff_...\<close>.\<close>

record week_vals =
  w_verify_discount :: pynum
  w_exposure :: pynum
  w_visit :: pynum
  w_order_users :: pynum
  w_order_coupons :: pynum
  w_verify_users :: pynum
  w_verify_coupons :: pynum
  w_order_amount :: pynum
  w_verify_amount :: pynum
  w_coupon_orders :: pynum
  w_phone_clicks :: pynum
  w_promo_cost :: pynum
  w_promo_exposure :: pynum
  w_promo_clicks :: pynum
  w_promo_orders :: pynum
  w_view_groupbuy :: pynum
  w_view_phone :: pynum
  w_consult :: pynum
  w_address :: pynum
  w_collect :: pynum
  w_good_reviews :: pynum
  w_avg_price :: pynum
  w_click_price :: pynum
  w_exposure_rate :: pystr
  w_order_rate :: pystr
  w_promo_rate :: pystr
  w_collect_rate :: pystr
  w_review_rate :: pystr

record week_diffs =
  diff_verify_discount :: pynum
  diff_exposure :: pynum
  diff_visit :: pynum
  diff_order_users :: pynum
  diff_order_coupons :: pynum
  diff_verify_users :: pynum
  diff_verify_coupons :: pynum
  diff_order_amount :: pynum
  diff_verify_amount :: pynum
  diff_coupon_orders :: pynum
  diff_phone_clicks :: pynum
  diff_avg_price :: pynum
  diff_promo_cost :: pynum
  diff_promo_exposure :: pynum
  diff_promo_clicks :: pynum
  diff_click_price :: pynum
  diff_promo_orders :: pynum
  diff_view_groupbuy :: pynum
  diff_view_phone :: pynum
  diff_consult :: pynum
  diff_address :: pynum
  diff_collect :: pynum
  diff_good_reviews :: pynum
  diff_exposure_rate :: pystr
  diff_order_rate :: pystr
  diff_promo_rate :: pystr
  diff_collect_rate :: pystr
  diff_review_rate :: pystr

text \<open>
  The local function \<open>calc_rate_diff(rate1_str, rate2_str)\<close>: each text is read back
  with \<open>float(s.rstrip('%'))\<close> unless it is \<open>'0%'\<close>, and the rounded difference is
  printed with a percent sign.
\<close>

definition calc_rate_diff :: "pystr \<Rightarrow> pystr \<Rightarrow> error + pystr" where
  "calc_rate_diff rate1_str rate2_str =
     bind_res (if rate1_str \<noteq> ascii ''0%'' then py_float (rstrip 37 rate1_str) else Inr (PInt 0))
       (\<lambda>val1.
     bind_res (if rate2_str \<noteq> ascii ''0%'' then py_float (rstrip 37 rate2_str) else Inr (PInt 0))
       (\<lambda>val2.
     Inr (fmt_pct (py_round (py_sub val2 val1) 1))))"

text \<open>
  The source writes the block for \<open>w1\<close> and the block for \<open>w2\<close> out twice, with the
  same text; \<open>week_metrics\<close> is that block.
\<close>

definition week_metrics :: "row option \<Rightarrow> error + week_vals" where
  "week_metrics w =
     (let verify_discount = safe_get_val w ''verify_after_discount'' (PInt 0);
          exposure = safe_get_val w ''exposure_users'' (PInt 0);
          visit = safe_get_val w ''visit_users'' (PInt 0);
          order_users = safe_get_val w ''order_users'' (PInt 0);
          order_coupons = safe_get_val w ''order_coupon_count'' (PInt 0);
          verify_users = safe_get_val w ''verify_users'' (PInt 0);
          verify_coupons = safe_get_val w ''verify_coupon_count'' (PInt 0);
          order_amount = safe_get_val w ''order_sale_amount'' (PInt 0);
          verify_amount = safe_get_val w ''verify_sale_amount'' (PInt 0);
          coupon_orders = safe_get_val w ''coupon_orders'' (PInt 0);
          phone_clicks = safe_get_val w ''phone_clicks'' (PInt 0);
          promo_cost = safe_get_val w ''promotion_cost'' (PInt 0);
          promo_exposure = safe_get_val w ''promotion_exposure'' (PInt 0);
          promo_clicks = safe_get_val w ''promotion_clicks'' (PInt 0);
          promo_orders = safe_get_val w ''promotion_orders'' (PInt 0);
          view_groupbuy = safe_get_val w ''view_groupbuy'' (PInt 0);
          view_phone = safe_get_val w ''view_phone'' (PInt 0);
          consult = safe_get_val w ''consult_users'' (PInt 0);
          address = safe_get_val w ''address_clicks'' (PInt 0);
          collect = safe_get_val w ''new_collect'' (PInt 0);
          good_reviews = safe_get_val w ''new_good_reviews'' (PInt 0)
      in bind_res (calc_rate (Some visit) (Some exposure)) (\<lambda>exposure_rate.
         bind_res (calc_rate (Some order_users) (Some visit)) (\<lambda>order_rate.
         bind_res (calc_avg_price (Some verify_discount) (Some verify_users)) (\<lambda>avg_price.
         bind_res (calc_avg_price (Some promo_cost) (Some promo_clicks)) (\<lambda>click_price.
         bind_res (calc_rate (Some promo_orders) (Some promo_clicks)) (\<lambda>promo_rate.
         bind_res (calc_rate (Some collect) (Some visit)) (\<lambda>collect_rate.
         bind_res (calc_rate (Some good_reviews) (Some verify_users)) (\<lambda>review_rate.
         Inr \<lparr>w_verify_discount = verify_discount,
           w_exposure = exposure,
           w_visit = visit,
           w_order_users = order_users,
           w_order_coupons = order_coupons,
           w_verify_users = verify_users,
           w_verify_coupons = verify_coupons,
           w_order_amount = order_amount,
           w_verify_amount = verify_amount,
           w_coupon_orders = coupon_orders,
           w_phone_clicks = phone_clicks,
           w_promo_cost = promo_cost,
           w_promo_exposure = promo_exposure,
           w_promo_clicks = promo_clicks,
           w_promo_orders = promo_orders,
           w_view_groupbuy = view_groupbuy,
           w_view_phone = view_phone,
           w_consult = consult,
           w_address = address,
           w_collect = collect,
           w_good_reviews = good_reviews,
           w_avg_price = avg_price,
           w_click_price = click_price,
           w_exposure_rate = fmt_pct exposure_rate,
           w_order_rate = fmt_pct order_rate,
           w_promo_rate = fmt_pct promo_rate,
           w_collect_rate = fmt_pct collect_rate,
           w_review_rate = fmt_pct review_rate\<rparr>))))))))"

definition week_diff :: "week_vals \<Rightarrow> week_vals \<Rightarrow> error + week_diffs" where
  "week_diff w1 w2 =
     bind_res (calc_rate_diff (w_exposure_rate w1) (w_exposure_rate w2)) (\<lambda>d_exposure_rate.
     bind_res (calc_rate_diff (w_order_rate w1) (w_order_rate w2)) (\<lambda>d_order_rate.
     bind_res (calc_rate_diff (w_promo_rate w1) (w_promo_rate w2)) (\<lambda>d_promo_rate.
     bind_res (calc_rate_diff (w_collect_rate w1) (w_collect_rate w2)) (\<lambda>d_collect_rate.
     bind_res (calc_rate_diff (w_review_rate w1) (w_review_rate w2)) (\<lambda>d_review_rate.
     Inr \<lparr>diff_verify_discount = py_round (py_sub (w_verify_discount w2) (w_verify_discount w1)) 2,
           diff_exposure = py_sub (w_exposure w2) (w_exposure w1),
           diff_visit = py_sub (w_visit w2) (w_visit w1),
           diff_order_users = py_sub (w_order_users w2) (w_order_users w1),
           diff_order_coupons = py_sub (w_order_coupons w2) (w_order_coupons w1),
           diff_verify_users = py_sub (w_verify_users w2) (w_verify_users w1),
           diff_verify_coupons = py_sub (w_verify_coupons w2) (w_verify_coupons w1),
           diff_order_amount = py_round (py_sub (w_order_amount w2) (w_order_amount w1)) 2,
           diff_verify_amount = py_round (py_sub (w_verify_amount w2) (w_verify_amount w1)) 2,
           diff_coupon_orders = py_sub (w_coupon_orders w2) (w_coupon_orders w1),
           diff_phone_clicks = py_sub (w_phone_clicks w2) (w_phone_clicks w1),
           diff_avg_price = py_round (py_sub (w_avg_price w2) (w_avg_price w1)) 2,
           diff_promo_cost = py_round (py_sub (w_promo_cost w2) (w_promo_cost w1)) 2,
           diff_promo_exposure = py_sub (w_promo_exposure w2) (w_promo_exposure w1),
           diff_promo_clicks = py_sub (w_promo_clicks w2) (w_promo_clicks w1),
           diff_click_price = py_round (py_sub (w_click_price w2) (w_click_price w1)) 2,
           diff_promo_orders = py_sub (w_promo_orders w2) (w_promo_orders w1),
           diff_view_groupbuy = py_sub (w_view_groupbuy w2) (w_view_groupbuy w1),
           diff_view_phone = py_sub (w_view_phone w2) (w_view_phone w1),
           diff_consult = py_sub (w_consult w2) (w_consult w1),
           diff_address = py_sub (w_address w2) (w_address w1),
           diff_collect = py_sub (w_collect w2) (w_collect w1),
           diff_good_reviews = py_sub (w_good_reviews w2) (w_good_reviews w1),
           diff_exposure_rate = d_exposure_rate,
           diff_order_rate = d_order_rate,
           diff_promo_rate = d_promo_rate,
           diff_collect_rate = d_collect_rate,
           diff_review_rate = d_review_rate\<rparr>)))))"

subsection \<open>The summary sheet\<close>

datatype cell = CNone | CNum pynum | CStr pystr

record workbook =
  wb_path :: pystr
  wb_sheets :: "(pystr \<times> cell list list) list"

text \<open>The two header rows of a store's block (Chinese labels, as code points).\<close>

definition header_row1 :: "cell list" where
  "header_row1 = map CStr
     [[24207, 21495],
      [36816, 33829],
      [22478, 24066],
      [38144, 21806],
      [38376, 24215],
      [25968, 25454, 21608, 26399],
      [20248, 24800, 21518, 26680, 38144, 39069],
      [26333, 20809, 20154, 25968],
      [35775, 38382, 20154, 25968],
      [26333, 20809, 35775, 38382, 36716, 21270, 29575],
      [19979, 21333, 20154, 25968],
      [19979, 21333, 21048, 25968],
      [19979, 21333, 36716, 21270, 29575],
      [26680, 38144, 20154, 25968],
      [26680, 38144, 21048, 25968],
      [19979, 21333, 21806, 20215, 37329, 39069],
      [26680, 38144, 21806, 20215, 37329, 39069],
      [20248, 24800, 30721, 35746, 21333],
      [30005, 35805, 28857, 20987],
      [23458, 21333, 20215]]"

definition header_row2 :: "cell list" where
  "header_row2 = map CStr
     [[],
      [],
      [],
      [],
      [],
      [25968, 25454, 21608, 26399],
      [25512, 24191, 36890, 33457, 36153],
      [25512, 24191, 36890, 26333, 20809],
      [25512, 24191, 36890, 28857, 20987],
      [25512, 24191, 36890, 28857, 20987, 22343, 20215],
      [25512, 24191, 36890, 35746, 21333, 37327],
      [25512, 24191, 36890, 19979, 21333, 36716, 21270, 29575],
      [25512, 24191, 36890, 26597, 30475, 22242, 36141],
      [25512, 24191, 36890, 26597, 30475, 30005, 35805],
      [22312, 32447, 21672, 35810],
      [22320, 22336, 28857, 20987],
      [38376, 24215, 25910, 34255],
      [25910, 34255, 29575],
      [26032, 22686, 22909, 35780, 25968],
      [30041, 35780, 29575]]"

text \<open>The label of a delta row, the title of the sheet, the name of a store without
  one, and the prefix of the file name.\<close>

definition diff_label :: pystr where
  "diff_label = [24046, 20540]"

definition summary_title :: pystr where
  "summary_title = [27719, 24635]"

definition unknown_shop :: pystr where
  "unknown_shop = [26410, 30693, 38376, 24215]"

definition weekly_prefix :: pystr where
  "weekly_prefix = [21608, 25253, 95]"

text \<open>
  \<open>datetime.strptime(d, '%Y-%m-%d').strftime('%Y.%m.%d')\<close> on an ISO date: the same
  digits with points for the hyphens. \<open>d.replace('-', '')\<close> drops the hyphens.
\<close>

definition date_dots :: "pystr \<Rightarrow> pystr" where
  "date_dots d = map (\<lambda>c. if c = 45 then 46 else c) d"

definition drop_hyphens :: "pystr \<Rightarrow> pystr" where
  "drop_hyphens d = filter (\<lambda>c. c \<noteq> 45) d"

definition period_str :: "pystr \<Rightarrow> pystr \<Rightarrow> pystr" where
  "period_str start_date end_date = date_dots start_date @ ascii ''-'' @ date_dots end_date"

text \<open>\<open>shop_info.get(k, '--') or '--'\<close>.\<close>

definition or_dashes :: "pystr option \<Rightarrow> pystr" where
  "or_dashes x = (case x of None \<Rightarrow> ascii ''--'' | Some s \<Rightarrow> if s = [] then ascii ''--'' else s)"

text \<open>\<open>w2.get('shop_name') or w1.get('shop_name', unknown)\<close>; \<open>None\<close> is Python's.\<close>

definition block_shop_name :: "row option \<Rightarrow> row option \<Rightarrow> pystr option" where
  "block_shop_name w1 w2 =
     (let n2 = (case w2 of None \<Rightarrow> None | Some r \<Rightarrow> shop_name r)
      in if n2 \<noteq> None \<and> n2 \<noteq> Some [] then n2
         else (case w1 of None \<Rightarrow> Some unknown_shop | Some r \<Rightarrow> shop_name r))"

definition str_cell :: "pystr option \<Rightarrow> cell" where
  "str_cell x = (case x of None \<Rightarrow> CNone | Some s \<Rightarrow> CStr s)"

definition blanks5 :: "cell list" where
  "blanks5 = [CStr [], CStr [], CStr [], CStr [], CStr []]"

definition period_row1 :: "week_vals \<Rightarrow> cell list" where
  "period_row1 w =
     [CNum (py_round (w_verify_discount w) 2), CNum (w_exposure w), CNum (w_visit w),
      CStr (w_exposure_rate w), CNum (w_order_users w), CNum (w_order_coupons w),
      CStr (w_order_rate w), CNum (w_verify_users w), CNum (w_verify_coupons w),
      CNum (py_round (w_order_amount w) 2), CNum (py_round (w_verify_amount w) 2),
      CNum (w_coupon_orders w), CNum (w_phone_clicks w), CNum (w_avg_price w)]"

definition period_row2 :: "week_vals \<Rightarrow> cell list" where
  "period_row2 w =
     [CNum (py_round (w_promo_cost w) 2), CNum (w_promo_exposure w), CNum (w_promo_clicks w),
      CNum (w_click_price w), CNum (w_promo_orders w), CStr (w_promo_rate w),
      CNum (w_view_groupbuy w), CNum (w_view_phone w), CNum (w_consult w),
      CNum (w_address w), CNum (w_collect w), CStr (w_collect_rate w),
      CNum (w_good_reviews w), CStr (w_review_rate w)]"

definition diff_row1 :: "week_diffs \<Rightarrow> cell list" where
  "diff_row1 d =
     [CNum (diff_verify_discount d), CNum (diff_exposure d), CNum (diff_visit d),
      CStr (diff_exposure_rate d), CNum (diff_order_users d), CNum (diff_order_coupons d),
      CStr (diff_order_rate d), CNum (diff_verify_users d), CNum (diff_verify_coupons d),
      CNum (diff_order_amount d), CNum (diff_verify_amount d),
      CNum (diff_coupon_orders d), CNum (diff_phone_clicks d), CNum (diff_avg_price d)]"

definition diff_row2 :: "week_diffs \<Rightarrow> cell list" where
  "diff_row2 d =
     [CNum (diff_promo_cost d), CNum (diff_promo_exposure d), CNum (diff_promo_clicks d),
      CNum (diff_click_price d), CNum (diff_promo_orders d), CStr (diff_promo_rate d),
      CNum (diff_view_groupbuy d), CNum (diff_view_phone d), CNum (diff_consult d),
      CNum (diff_address d), CNum (diff_collect d), CStr (diff_collect_rate d),
      CNum (diff_good_reviews d), CStr (diff_review_rate d)]"

text \<open>The values of a store in both periods and their differences, in the order in
  which the loop body computes them.\<close>

definition week_compare :: "row option \<Rightarrow> row option \<Rightarrow> error + week_vals \<times> week_vals \<times> week_diffs" where
  "week_compare w1 w2 =
     bind_res (week_metrics w1) (\<lambda>v1.
     bind_res (week_metrics w2) (\<lambda>v2.
     bind_res (week_diff v1 v2) (\<lambda>d.
     Inr (v1, v2, d))))"

text \<open>The body of the loop \<open>for shop_id in sorted(all_shop_ids)\<close>: the eight rows
  appended for one store.\<close>

definition shop_block ::
  "(pystr \<Rightarrow> shop_info option) \<Rightarrow> pystr \<Rightarrow> pystr \<Rightarrow> nat \<Rightarrow> row option \<Rightarrow> row option \<Rightarrow>
   pystr \<Rightarrow> error + cell list list" where
  "shop_block shop_mapping week1_str week2_str seq_num w1 w2 sid =
     (let name = block_shop_name w1 w2;
          info = shop_mapping sid;
          operator' = or_dashes (map_option operator info);
          sales' = or_dashes (map_option sales info);
          city' = or_dashes (map_option city info)
      in bind_res (week_compare w1 w2) (\<lambda>(v1, v2, d).
         Inr [header_row1,
              [CNum (PInt (int seq_num)), CStr operator', CStr city', CStr sales', str_cell name,
               CStr week1_str] @ period_row1 v1,
              blanks5 @ [CStr week2_str] @ period_row1 v2,
              blanks5 @ [CStr diff_label] @ diff_row1 d,
              header_row2,
              blanks5 @ [CStr week1_str] @ period_row2 v1,
              blanks5 @ [CStr week2_str] @ period_row2 v2,
              blanks5 @ [CStr diff_label] @ diff_row2 d]))"

fun shop_blocks ::
  "(pystr \<Rightarrow> shop_info option) \<Rightarrow> pystr \<Rightarrow> pystr \<Rightarrow> (pystr \<Rightarrow> row option) \<Rightarrow>
   (pystr \<Rightarrow> row option) \<Rightarrow> nat \<Rightarrow> pystr list \<Rightarrow> error + cell list list" where
  "shop_blocks shop_mapping week1_str week2_str week1_data week2_data seq_num [] = Inr []"
| "shop_blocks shop_mapping week1_str week2_str week1_data week2_data seq_num (sid # sids) =
     bind_res (shop_block shop_mapping week1_str week2_str seq_num
                 (week1_data sid) (week2_data sid) sid) (\<lambda>rows.
     bind_res (shop_blocks shop_mapping week1_str week2_str week1_data week2_data
                 (seq_num + 1) sids) (\<lambda>more.
     Inr (rows @ more)))"

text \<open>\<open>sorted(set(week1_data.keys()) | set(week2_data.keys()))\<close>.\<close>

definition all_shop_ids :: "row list \<Rightarrow> row list \<Rightarrow> pystr list" where
  "all_shop_ids week1_rows week2_rows =
     sort (remdups (map shop_id week1_rows @ map shop_id week2_rows))"

text \<open>
  \<open>generate_weekly_report\<close>. The result is the path of the written file together with
  the cell values of the workbook (fonts, fills, borders, widths and merges are left
  out). \<open>accounts\<close> reaches \<open>get_shop_info_mapping\<close> only; the query has no store
  condition. The four dates are well-formed ISO dates (a text that \<open>strptime\<close> rejects
  is outside the model), and failures of the database or of the file system are not
  modelled.
\<close>

definition generate_weekly_report ::
  "env \<Rightarrow> database \<Rightarrow> pystr \<Rightarrow> pystr \<Rightarrow> pystr \<Rightarrow> pystr \<Rightarrow> pystr list option \<Rightarrow>
   error + workbook" where
  "generate_weekly_report e db week1_start week1_end week2_start week2_end accounts =
     (let shop_mapping = get_shop_info_mapping e db accounts;
          week1_rows = sql_week (joined db) week1_start week1_end;
          week2_rows = sql_week (joined db) week2_start week2_end;
          ids = all_shop_ids week1_rows week2_rows
      in if ids = [] then Inl ValueError
         else
           bind_res (shop_blocks shop_mapping (period_str week1_start week1_end)
                       (period_str week2_start week2_end)
                       (dict_of_rows week1_rows) (dict_of_rows week2_rows) 1 ids) (\<lambda>rows.
           Inr \<lparr>wb_path = generate_temp_filename e
                    (weekly_prefix @ drop_hyphens week2_start @ ascii ''_'' @
                     drop_hyphens week2_end),
                wb_sheets = [(summary_title, rows)]\<rparr>))"

definition generate_monthly_report ::
  "env \<Rightarrow> database \<Rightarrow> pystr \<Rightarrow> pystr \<Rightarrow> pystr \<Rightarrow> pystr \<Rightarrow> pystr list option \<Rightarrow>
   error + workbook" where
  "generate_monthly_report e db month1_start month1_end month2_start month2_end accounts =
     generate_weekly_report e db month1_start month1_end month2_start month2_end accounts"

definition generate_custom_report ::
  "env \<Rightarrow> database \<Rightarrow> pystr \<Rightarrow> pystr \<Rightarrow> pystr \<Rightarrow> pystr \<Rightarrow> pystr list option \<Rightarrow>
   pystr list option \<Rightarrow> error + workbook" where
  "generate_custom_report e db period1_start period1_end period2_start period2_end
     shop_ids accounts =
     generate_weekly_report e db period1_start period1_end period2_start period2_end accounts"

section \<open>The daily report\<close>

text \<open>The select list of the daily query: alias and column.\<close>

definition daily_columns :: "(string \<times> string) list" where
  "daily_columns =
     [(''exposure_users'', ''k.exposure_users''),
      (''visit_users'', ''k.visit_users''),
      (''order_users'', ''k.order_users''),
      (''verify_users'', ''k.verify_person_count''),
      (''order_coupon_count'', ''k.order_coupon_count''),
      (''verify_coupon_count'', ''k.verify_coupon_count''),
      (''promotion_cost'', ''k.promotion_cost''),
      (''new_good_review_count'', ''k.new_good_review_count''),
      (''new_review_count'', ''k.new_review_count''),
      (''new_collect_users'', ''k.new_collect_users''),
      (''consult_users'', ''k.consult_users''),
      (''order_sale_amount'', ''k.order_sale_amount''),
      (''verify_sale_amount'', ''k.verify_sale_amount''),
      (''verify_after_discount'', ''k.verify_after_discount''),
      (''phone_clicks'', ''p.view_phone_count''),
      (''address_clicks'', ''p.view_address_count''),
      (''click_avg_price'', ''p.click_avg_price''),
      (''promotion_order_count'', ''p.order_count''),
      (''order_user_rank'', ''s.order_user_rank''),
      (''verify_amount_rank'', ''s.verify_amount_rank''),
      (''checkin_count'', ''s.checkin_count''),
      (''ad_balance'', ''s.ad_balance''),
      (''ad_order_count'', ''s.ad_order_count''),
      (''is_force_offline'', ''s.is_force_offline'')]"

text \<open>
  The daily query: \<open>WHERE k.report_date = %s\<close>, with \<open>AND k.shop_id IN (...)\<close> when
  the caller adds it (\<open>in_clause\<close> is \<open>None\<close> otherwise), \<open>ORDER BY k.shop_id\<close>.
\<close>

definition sql_daily :: "database \<Rightarrow> pystr \<Rightarrow> pystr list option \<Rightarrow> table_row list" where
  "sql_daily db d in_clause =
     map (\<lambda>r. r\<lparr>col := (\<lambda>alias. case map_of daily_columns alias of
                                     None \<Rightarrow> None | Some src \<Rightarrow> col r src)\<rparr>)
       (sort_key shop_id
          (filter (\<lambda>r. report_date r = d \<and>
                        (case in_clause of None \<Rightarrow> True | Some ids \<Rightarrow> shop_id r \<in> set ids))
             (joined db)))"

text \<open>\<open>int(x)\<close> truncates towards zero.\<close>

fun py_int :: "pynum \<Rightarrow> int" where
  "py_int (PInt i) = i"
| "py_int (PFloat q) = (if 0 \<le> q then \<lfloor>q\<rfloor> else \<lceil>q\<rceil>)"

text \<open>
  \<open>get_coupon_orders_last_7days(shop_id, report_date)\<close>: the sum of
  \<open>coupon_pay_order_count\<close> over the seven days that end with the report date
  (\<open>days_before\<close> is \<open>strptime\<close>, \<open>timedelta\<close> and \<open>strftime\<close>), \<open>0\<close> for no value.
\<close>

definition get_coupon_orders_last_7days :: "env \<Rightarrow> database \<Rightarrow> pystr \<Rightarrow> pystr \<Rightarrow> int" where
  "get_coupon_orders_last_7days e db sid d =
     (let start_date = days_before e d 6;
          rs = filter (\<lambda>r. shop_id r = sid \<and> start_date \<le> report_date r \<and> report_date r \<le> d)
                 (kewen_daily_report db)
      in case sql_sum (map (\<lambda>r. col r ''coupon_pay_order_count'') rs) of
           None \<Rightarrow> 0
         | Some t \<Rightarrow> if truthy t then py_int t else 0)"

text \<open>\<open>get_ad_orders_today(shop_id, report_date)\<close>: \<open>fetchone\<close> takes the first row.\<close>

definition get_ad_orders_today :: "database \<Rightarrow> pystr \<Rightarrow> pystr \<Rightarrow> int" where
  "get_ad_orders_today db sid d =
     (case filter (\<lambda>r. side_shop r = sid \<and> side_date r = d) (store_stats db) of
        [] \<Rightarrow> 0
      | r # rest \<Rightarrow>
          (case side_col r ''ad_order_count'' of
             None \<Rightarrow> 0
           | Some t \<Rightarrow> if truthy t then py_int t else 0))"

subsection \<open>Cells of a store\<close>

text \<open>\<open>x or 0\<close> and \<open>round(x, 2) if x else 0\<close> on a nullable number.\<close>

definition or0 :: "pynum option \<Rightarrow> pynum" where
  "or0 x = (case x of None \<Rightarrow> PInt 0 | Some v \<Rightarrow> if truthy v then v else PInt 0)"

definition round2_or0 :: "pynum option \<Rightarrow> pynum" where
  "round2_or0 x = (case x of None \<Rightarrow> PInt 0 | Some v \<Rightarrow> if truthy v then py_round v 2 else PInt 0)"

text \<open>Literals of the rank texts: \<open>rank_pre\<close> N \<open>rank_post\<close> reads "rank N",
  \<open>gt100\<close> reads "greater than rank 100", \<open>colon\<close> is the full-width colon.\<close>

definition rank_pre :: pystr where
  "rank_pre = [31532]"

definition rank_post :: pystr where
  "rank_post = [21517]"

definition gt100 :: pystr where
  "gt100 = [22823, 20110, 49, 48, 48, 21517]"

definition colon :: pystr where
  "colon = [65306]"

definition dashes :: pystr where
  "dashes = ascii ''--''"

text \<open>
  The summary sheet's \<open>order_rank_str\<close> and \<open>verify_rank_str\<close> (the same expression,
  written twice in the source): \<open>f"..{rank}.." if rank and rank < 100 else (gt100 if
  rank and rank >= 100 else "--")\<close>.
\<close>

definition rank_str :: "pynum option \<Rightarrow> pystr" where
  "rank_str rank =
     (case rank of
        None \<Rightarrow> dashes
      | Some r \<Rightarrow>
          if truthy r \<and> num_val r < 100 then rank_pre @ py_str_num r @ rank_post
          else if truthy r \<and> 100 \<le> num_val r then gt100
          else dashes)"

text \<open>
  The detail sheet's \<open>order_rank_display\<close> and \<open>verify_rank_display\<close>:
  \<open>f"{region_display}:..{rank}.." if rank and rank < 100 else f"{region_display}:gt100"\<close>.
\<close>

definition rank_display :: "pystr \<Rightarrow> pynum option \<Rightarrow> pystr" where
  "rank_display region_display rank =
     (case rank of
        None \<Rightarrow> region_display @ colon @ gt100
      | Some r \<Rightarrow>
          if truthy r \<and> num_val r < 100
          then region_display @ colon @ rank_pre @ py_str_num r @ rank_post
          else region_display @ colon @ gt100)"

text \<open>\<open>f"{x:.1f}"\<close>: rounded to one decimal and printed with it.\<close>

definition fmt_1f :: "pynum \<Rightarrow> pystr" where
  "fmt_1f x = repr_float1 (of_int (round_half_even (num_val x * 10)) / 10)"

text \<open>\<open>(a / b * 100) if b > 0 else 0\<close>.\<close>

definition pct_of :: "pynum \<Rightarrow> pynum \<Rightarrow> error + pynum" where
  "pct_of a b =
     (if 0 < num_val b
      then bind_res (py_truediv a b) (\<lambda>q. Inr (py_mul q (PInt 100)))
      else Inr (PInt 0))"

definition qualified_text :: "bool \<Rightarrow> pystr" where
  "qualified_text ok = (if ok then [36798, 26631] else [26410, 36798, 26631])"

definition summary_headers :: "cell list" where
  "summary_headers = map CStr
     [[26143, 26399],
      [26085, 26399],
      [24207, 21495],
      [36816, 33829],
      [22478, 24066],
      [38144, 21806],
      [38376, 24215],
      [26333, 20809, 20154, 25968],
      [35775, 38382, 20154, 25968],
      [19979, 21333, 20154, 25968],
      [26680, 38144, 20154, 25968],
      [19979, 21333, 21048, 25968],
      [26680, 38144, 21048, 25968],
      [30005, 35805, 28857, 20987],
      [22320, 22336, 28857, 20987],
      [25512, 24191, 36890, 28040, 32791],
      [22909, 35780],
      [24847, 21521, 36716, 21270, 29575],
      [19979, 21333, 21806, 20215, 37329, 39069],
      [26680, 38144, 21806, 20215, 37329, 39069],
      [20248, 24800, 21518, 26680, 38144, 37329, 39069],
      [19979, 21333, 20154, 25968, 21830, 22280, 25490, 21517],
      [26680, 38144, 37329, 39069, 21830, 22280, 25490, 21517]]"

fun weekday_names :: "weekday \<Rightarrow> pystr" where
  "weekday_names Mon = [21608, 19968]"
| "weekday_names Tue = [21608, 20108]"
| "weekday_names Wed = [21608, 19977]"
| "weekday_names Thu = [21608, 22235]"
| "weekday_names Fri = [21608, 20116]"
| "weekday_names Sat = [21608, 20845]"
| "weekday_names Sun = [21608, 26085]"

text \<open>
  \<open>strftime\<close> with month and day of an ISO date: \<open>date_str\<close> is month, the sign for
  month, day, the sign for day; \<open>date_short\<close> is \<open>MM/DD\<close>.
\<close>

definition date_str :: "pystr \<Rightarrow> pystr" where
  "date_str d = take 2 (drop 5 d) @ [26376] @ take 2 (drop 8 d) @ [26085]"

definition date_short :: "pystr \<Rightarrow> pystr" where
  "date_short d = take 2 (drop 5 d) @ ascii ''/'' @ take 2 (drop 8 d)"

definition daily_prefix :: pystr where
  "daily_prefix = [26085, 25253, 95]"

text \<open>
  The sheet name of a store: \<open>sheet_names_used\<close> counts the cleaned names seen so far;
  a name seen before is cut to 28 characters and gets \<open>_\<close> and its count.
\<close>

definition assign_sheet_name ::
  "(pystr \<Rightarrow> nat option) \<Rightarrow> pystr \<Rightarrow> (pystr \<Rightarrow> nat option) \<times> pystr" where
  "assign_sheet_name sheet_names_used shop_name' =
     (let sheet_name = clean_sheet_name shop_name' 31
      in case sheet_names_used sheet_name of
           Some n \<Rightarrow>
             (sheet_names_used(sheet_name \<mapsto> n + 1),
              take 28 sheet_name @ ascii ''_'' @ str_nat (n + 1))
         | None \<Rightarrow> (sheet_names_used(sheet_name \<mapsto> 1), sheet_name))"

text \<open>The names that the loop over the stores assigns, as a function of the names shown
  for the stores in the order of the rows.\<close>

fun sheet_titles :: "(pystr \<Rightarrow> nat option) \<Rightarrow> pystr list \<Rightarrow> pystr list" where
  "sheet_titles sheet_names_used [] = []"
| "sheet_titles sheet_names_used (n # ns) =
     (let (used', sheet_name) = assign_sheet_name sheet_names_used n
      in sheet_name # sheet_titles used' ns)"

text \<open>\<open>row['shop_name'] or f'..{shop_id}'\<close>: the name shown for a store, the word for
  "store" and the identifier when the row has no name.\<close>

definition display_name :: "table_row \<Rightarrow> pystr" where
  "display_name r =
     (case shop_name r of
        None \<Rightarrow> [38376, 24215] @ shop_id r
      | Some n \<Rightarrow> if n = [] then [38376, 24215] @ shop_id r else n)"

text \<open>
  \<open>region_display\<close>: city, district and business zone of the store's region entry
  joined by bars when the business zone is true, else the account's city.
  \<open>region_info.get('city', city)\<close> falls back to the account's city, the other two
  to the empty text, when the store has no region entry.
\<close>

definition region_display :: "env \<Rightarrow> pystr \<Rightarrow> region_info option \<Rightarrow> pystr" where
  "region_display e city' region =
     (let region_city' = (case region of None \<Rightarrow> JStr city' | Some g \<Rightarrow> region_city g);
          region_district' = (case region of None \<Rightarrow> JStr [] | Some g \<Rightarrow> region_district g);
          region_business' = (case region of None \<Rightarrow> JStr [] | Some g \<Rightarrow> region_business g)
      in if json_truthy region_business'
         then json_str e region_city' @ ascii '' | '' @ json_str e region_district' @
              ascii '' | '' @ json_str e region_business'
         else city')"

text \<open>The cells of one store: its row of the summary sheet and the rows of its detail
  sheet (\<open>detail_data\<close>).\<close>

definition daily_store ::
  "env \<Rightarrow> database \<Rightarrow> (pystr \<Rightarrow> shop_info option) \<Rightarrow> (pystr \<Rightarrow> region_info option) \<Rightarrow> pystr \<Rightarrow>
   nat \<Rightarrow> table_row \<Rightarrow> error + pystr \<times> cell list \<times> cell list list" where
  "daily_store e db shop_mapping region_mapping d idx r =
     (let sid = shop_id r;
          shop_name' = display_name r;
          shop_info = shop_mapping sid;
          operator' = (case shop_info of None \<Rightarrow> [] | Some i \<Rightarrow> operator i);
          sales' = (case shop_info of None \<Rightarrow> [] | Some i \<Rightarrow> sales i);
          city' = (case shop_info of None \<Rightarrow> [] | Some i \<Rightarrow> city i);
          order_rank = col r ''order_user_rank'';
          verify_rank = col r ''verify_amount_rank'';
          summary_row =
            [CStr (weekday_names (weekday_of e d)), CStr (date_str d), CNum (PInt (int idx)),
             CStr operator', CStr city', CStr sales', CStr shop_name',
             CNum (or0 (col r ''exposure_users'')),
             CNum (or0 (col r ''visit_users'')),
             CNum (or0 (col r ''order_users'')),
             CNum (or0 (col r ''verify_users'')),
             CNum (or0 (col r ''order_coupon_count'')),
             CNum (or0 (col r ''verify_coupon_count'')),
             CNum (or0 (col r ''phone_clicks'')),
             CNum (or0 (col r ''address_clicks'')),
             CNum (round2_or0 (col r ''promotion_cost'')),
             CNum (or0 (col r ''new_good_review_count'')),
             CStr (case intent_rate r of None \<Rightarrow> ascii ''0%'' | Some s \<Rightarrow> if s = [] then ascii ''0%'' else s),
             CNum (round2_or0 (col r ''order_sale_amount'')),
             CNum (round2_or0 (col r ''verify_sale_amount'')),
             CNum (round2_or0 (col r ''verify_after_discount'')),
             CStr (rank_str order_rank), CStr (rank_str verify_rank)];
          order_users = or0 (col r ''order_users'');
          verify_users = or0 (col r ''verify_users'');
          new_review_count = or0 (col r ''new_review_count'');
          new_collect_users = or0 (col r ''new_collect_users'')
      in bind_res (pct_of new_review_count verify_users) (\<lambda>review_rate.
         bind_res (pct_of new_collect_users order_users) (\<lambda>collect_rate.
         let review_rate_str = fmt_1f review_rate @ ascii ''%'';
             review_qualified = qualified_text (30 \<le> num_val review_rate);
             collect_rate_str = fmt_1f collect_rate @ ascii ''%'';
             collect_qualified = qualified_text (40 \<le> num_val collect_rate);
             coupon_7days = get_coupon_orders_last_7days e db sid d;
             coupon_qualified = qualified_text (10 \<le> coupon_7days);
             ad_today = get_ad_orders_today db sid d;
             ad_qualified = qualified_text (1 \<le> ad_today);
             is_force_offline = or0 (col r ''is_force_offline'');
             status_info =
               (if 0 < num_val is_force_offline
                then [35686, 21578, 65306, 26377] @ py_str_num is_force_offline @
                     [20010, 22242, 21333, 34987, 24378, 21046, 19979, 32447, 65281]
                else [20170, 22825, 37038, 20214, 24050, 26597, 30475, 65292, 26080, 36829, 35268, 26080, 24322, 24120, 12290]);
             region_display' = region_display e city' (region_mapping sid);
             order_rank_display = rank_display region_display' order_rank;
             verify_rank_display = rank_display region_display' verify_rank;
             detail_data =
               [[CStr shop_name', CStr status_info, CStr []],
                [CStr [25968, 25454, 25253, 34920], CStr ([26085, 26399, 40] @ date_short d @ [41]), CStr []],
                [CStr [12304, 32654, 22242, 28857, 35780, 24191, 21578, 32467, 26524, 25968, 25454, 12305], CStr [], CStr []],
                [CStr [26333, 20809, 20154, 25968, 65306], CNum (or0 (col r ''exposure_users'')), CStr []],
                [CStr [35775, 38382, 20154, 25968, 65306], CNum (or0 (col r ''visit_users'')), CStr []],
                [CStr [19979, 21333, 20154, 25968, 65306], CNum (or0 (col r ''order_users'')), CStr []],
                [CStr [19979, 21333, 21048, 25968, 65306], CNum (or0 (col r ''order_coupon_count'')), CStr []],
                [CStr [26680, 38144, 20154, 25968, 65306], CNum (or0 (col r ''verify_users'')), CStr []],
                [CStr [26680, 38144, 21048, 25968, 65306], CNum (or0 (col r ''verify_coupon_count'')), CStr []],
                [CStr [30005, 35805, 28857, 20987, 65306], CNum (or0 (col r ''phone_clicks'')), CStr []],
                [CStr [22320, 22336, 28857, 20987, 65306], CNum (or0 (col r ''address_clicks'')), CStr []],
                [CStr [22312, 32447, 21672, 35810, 65306], CNum (or0 (col r ''consult_users'')), CStr []],
                [CStr [], CStr [], CStr []],
                [CStr [12304, 24215, 20869, 24178, 39044, 25968, 25454, 12305], CStr [], CStr []],
                [CStr [26032, 22686, 25910, 34255, 65306], CNum (or0 (col r ''new_collect_users'')), CStr []],
                [CStr [26032, 22686, 25171, 21345, 65306], CNum (or0 (col r ''checkin_count'')), CStr []],
                [CStr [26032, 22686, 35780, 20215, 65306], CNum (or0 (col r ''new_review_count'')), CStr []],
                [CStr [], CStr [], CStr []],
                [CStr [12304, 25512, 24191, 36890, 25968, 25454, 12305], CStr [], CStr []],
                [CStr [25512, 24191, 36890, 28040, 32791, 65306], CNum (round2_or0 (col r ''promotion_cost'')), CStr []],
                [CStr [25512, 24191, 36890, 28857, 20987, 21333, 20215, 65306], CNum (round2_or0 (col r ''click_avg_price'')), CStr []],
                [CStr [25512, 24191, 36890, 19979, 21333, 37327, 65306], CNum (or0 (col r ''promotion_order_count'')), CStr []],
                [CStr [25512, 24191, 36890, 20313, 39069, 65306], CNum (round2_or0 (col r ''ad_balance'')), CStr []],
                [CStr [], CStr [], CStr []],
                [CStr [30041, 35780, 29575, 65288, 51, 48, 37, 36798, 26631, 65289, 65306], CStr review_rate_str, CStr review_qualified],
                [CStr [25910, 34255, 29575, 65288, 52, 48, 37, 36798, 26631, 65289, 65306], CStr collect_rate_str, CStr collect_qualified],
                [CStr [36817, 55, 22825, 20248, 24800, 30721, 35746, 21333, 26159, 21542, 36798, 26631, 65306], CNum (PInt coupon_7days), CStr coupon_qualified],
                [CStr [24191, 21578, 21333, 65306], CStr ([24403, 22825] @ str_int ad_today @ [21333]), CStr ad_qualified],
                [CStr [], CStr [], CStr []],
                [CStr [19979, 21333, 21806, 20215, 37329, 39069, 65306], CNum (round2_or0 (col r ''order_sale_amount'')), CStr []],
                [CStr [26680, 38144, 21806, 20215, 37329, 39069, 65306], CNum (round2_or0 (col r ''verify_sale_amount'')), CStr []],
                [CStr [19979, 21333, 20154, 25968, 21830, 22280, 25490, 21517, 65306], CStr order_rank_display, CStr []],
                [CStr [26680, 38144, 37329, 39069, 21830, 22280, 25490, 21517, 65306], CStr verify_rank_display, CStr []],
                [CStr [], CStr [], CStr []],
                [CStr [22242, 21333, 34987, 24378, 21046, 19979, 32447, 25968, 37327, 65306], CNum is_force_offline, CStr []],
                [CStr [], CStr [], CStr []],
                [CStr [36816, 33829, 65306], CStr operator', CStr []],
                [CStr [38144, 21806, 65306], CStr sales', CStr []],
                [CStr [22478, 24066, 65306], CStr city', CStr []]]
         in Inr (shop_name', summary_row, detail_data))))"

text \<open>
  The loop \<open>for idx, row in enumerate(rows, start=1)\<close>: the summary rows, and the
  detail sheets in the order of their creation, each with the title handed to
  \<open>wb.create_sheet\<close>.
\<close>

fun daily_rows ::
  "env \<Rightarrow> database \<Rightarrow> (pystr \<Rightarrow> shop_info option) \<Rightarrow> (pystr \<Rightarrow> region_info option) \<Rightarrow> pystr \<Rightarrow>
   (pystr \<Rightarrow> nat option) \<Rightarrow> nat \<Rightarrow> table_row list \<Rightarrow>
   error + cell list list \<times> (pystr \<times> cell list list) list" where
  "daily_rows e db shop_mapping region_mapping d sheet_names_used idx [] = Inr ([], [])"
| "daily_rows e db shop_mapping region_mapping d sheet_names_used idx (r # rs) =
     bind_res (daily_store e db shop_mapping region_mapping d idx r)
       (\<lambda>(shop_name', summary_row, detail_data).
     let (used', sheet_name) = assign_sheet_name sheet_names_used shop_name'
     in bind_res (daily_rows e db shop_mapping region_mapping d used' (idx + 1) rs)
       (\<lambda>(summary_rows, detail_sheets).
     Inr (summary_row # summary_rows, (sheet_name, detail_data) # detail_sheets)))"

text \<open>
  \<open>generate_daily_report(report_date, accounts)\<close>. With a true \<open>accounts\<close> list the
  stores of the named accounts are collected into \<open>shop_ids_filter\<close> (a list, possibly
  empty); otherwise \<open>shop_ids_filter\<close> stays \<open>None\<close>. The query gets its \<open>IN\<close>
  clause under \<open>if shop_ids_filter:\<close>, which is false for \<open>None\<close> and for the empty
  list alike. An empty result raises \<open>ValueError\<close>. The date is a well-formed ISO
  date, and failures of the database or of the file system are not modelled.
\<close>

definition daily_shop_ids_filter :: "env \<Rightarrow> database \<Rightarrow> pystr list option \<Rightarrow> pystr list option" where
  "daily_shop_ids_filter e db accounts =
     (case accounts of
        None \<Rightarrow> None
      | Some accs \<Rightarrow>
          if accs = [] then None
          else Some (concat (map (\<lambda>acc. account_store_ids e (stores_json acc))
                       (filter (\<lambda>a. account a \<in> set accs) (accounts_tbl db)))))"

definition daily_query_rows :: "env \<Rightarrow> database \<Rightarrow> pystr \<Rightarrow> pystr list option \<Rightarrow> table_row list" where
  "daily_query_rows e db d accounts =
     (let shop_ids_filter = daily_shop_ids_filter e db accounts;
          in_clause = (case shop_ids_filter of
                         None \<Rightarrow> None
                       | Some ids \<Rightarrow> if ids \<noteq> [] then Some ids else None)
      in sql_daily db d in_clause)"

definition generate_daily_report ::
  "env \<Rightarrow> database \<Rightarrow> pystr \<Rightarrow> pystr list option \<Rightarrow> error + workbook" where
  "generate_daily_report e db d accounts =
     (let shop_mapping = get_shop_info_mapping e db accounts;
          region_mapping = get_region_info_mapping e db accounts;
          rows = daily_query_rows e db d accounts
      in if rows = [] then Inl ValueError
         else
           bind_res (daily_rows e db shop_mapping region_mapping d Map.empty 1 rows)
             (\<lambda>(summary_rows, detail_sheets).
           Inr \<lparr>wb_path = generate_temp_filename e (daily_prefix @ drop_hyphens d),
                wb_sheets = (summary_title, summary_headers # summary_rows) # detail_sheets\<rparr>))"

section \<open>The specification's formulas\<close>

text \<open>
  The specification's rate of one period, in its words: \<open>round(num / den * 100, 1)\<close>
  if \<open>den > 0\<close>, else \<open>0\<close>; and its rate delta \<open>round(rate(b) - rate(a), 1)\<close>, which
  the sheet shows with a percent sign.
\<close>

definition spec_rate :: "pynum \<Rightarrow> pynum \<Rightarrow> pynum" where
  "spec_rate n d =
     (if 0 < num_val d then py_round (PFloat (num_val n / num_val d * 100)) 1 else PInt 0)"

definition spec_rate_delta :: "pynum \<Rightarrow> pynum \<Rightarrow> pystr" where
  "spec_rate_delta rate_a rate_b = fmt_pct (py_round (py_sub rate_b rate_a) 1)"

text \<open>A denominator that is a number above zero (not \<open>None\<close>, not zero, not negative).\<close>

definition positive :: "pynum option \<Rightarrow> bool" where
  "positive d = (case d of None \<Rightarrow> False | Some v \<Rightarrow> 0 < num_val v)"

text \<open>The rate of one period's row, from its two counters.\<close>

definition spec_period_rate :: "row option \<Rightarrow> string \<Rightarrow> string \<Rightarrow> pynum" where
  "spec_period_rate w num_key den_key =
     spec_rate (safe_get_val w num_key (PInt 0)) (safe_get_val w den_key (PInt 0))"


text \<open>
  The additive fields of a store by kind, each list in one fixed order: the counters, the
  currency amounts, and their deltas.
\<close>

definition week_counts :: "week_vals \<Rightarrow> pynum list" where
  "week_counts v =
     [w_exposure v, w_visit v, w_order_users v, w_order_coupons v, w_verify_users v,
      w_verify_coupons v, w_coupon_orders v, w_phone_clicks v, w_promo_exposure v,
      w_promo_clicks v, w_promo_orders v, w_view_groupbuy v, w_view_phone v, w_consult v,
      w_address v, w_collect v, w_good_reviews v]"

definition week_amounts :: "week_vals \<Rightarrow> pynum list" where
  "week_amounts v =
     [w_verify_discount v, w_order_amount v, w_verify_amount v, w_promo_cost v]"

definition diff_counts :: "week_diffs \<Rightarrow> pynum list" where
  "diff_counts d =
     [diff_exposure d, diff_visit d, diff_order_users d, diff_order_coupons d,
      diff_verify_users d, diff_verify_coupons d, diff_coupon_orders d,
      diff_phone_clicks d, diff_promo_exposure d, diff_promo_clicks d, diff_promo_orders d,
      diff_view_groupbuy d, diff_view_phone d, diff_consult d, diff_address d,
      diff_collect d, diff_good_reviews d]"

definition diff_amounts :: "week_diffs \<Rightarrow> pynum list" where
  "diff_amounts d =
     [diff_verify_discount d, diff_order_amount d, diff_verify_amount d, diff_promo_cost d]"

section \<open>Inputs of the scenarios\<close>

text \<open>
  A stand-in for the outside world, used where a statement needs a concrete one: a decoder
  that knows the text \<open>[]\<close> and rejects every other text (as \<open>json.loads\<close> rejects
  \<open>{not json\<close>), a fixed day of the week, clock and identifier.
\<close>

definition env0 :: env where
  "env0 =
     \<lparr>json_loads = (\<lambda>s. if s = ascii ''[]'' then Some (JList []) else None),
      py_str = (\<lambda>x. ascii ''?''),
      weekday_of = (\<lambda>d. Thu),
      days_before = (\<lambda>d n. d),
      now_stamp = ascii ''20251218120000'',
      uuid8 = ascii ''0a1b2c3d'',
      temp_dir = ascii ''/tmp/jx_reports''\<rparr>"

definition k_row :: "pystr \<Rightarrow> pystr \<Rightarrow> pystr \<Rightarrow> (string \<Rightarrow> pynum option) \<Rightarrow> table_row" where
  "k_row sid name d cols =
     \<lparr>shop_id = sid, shop_name = Some name, col = cols, report_date = d, intent_rate = None\<rparr>"

text \<open>Two stores, one with a row in the first week and one with a row in the second.\<close>

definition db_two_stores :: database where
  "db_two_stores =
     \<lparr>accounts_tbl = [],
      kewen_daily_report =
        [k_row (ascii ''S1'') (ascii ''Central'') (ascii ''2025-12-01'') [''order_users'' \<mapsto> PInt 5],
         k_row (ascii ''S2'') (ascii ''North'') (ascii ''2025-12-08'') [''order_users'' \<mapsto> PInt 7]],
      promotion_daily_report = [], store_stats = []\<rparr>"

text \<open>Three stores on one day, named \<open>A\<close>, \<open>A\<close> and \<open>A_2\<close>, without rows in the
  other tables (so without rank values).\<close>

definition db_same_names :: database where
  "db_same_names =
     \<lparr>accounts_tbl = [],
      kewen_daily_report =
        [k_row (ascii ''S1'') (ascii ''A'') (ascii ''2025-12-18'') Map.empty,
         k_row (ascii ''S2'') (ascii ''A'') (ascii ''2025-12-18'') Map.empty,
         k_row (ascii ''S3'') (ascii ''A_2'') (ascii ''2025-12-18'') Map.empty],
      promotion_daily_report = [], store_stats = []\<rparr>"

text \<open>One account \<open>acctX\<close> whose stores blob is the given text, and one store with a row
  on the report day.\<close>

definition db_one_account :: "pystr \<Rightarrow> database" where
  "db_one_account blob =
     \<lparr>accounts_tbl =
        [\<lparr>account = ascii ''acctX'', stores_json = Some (JStr blob),
          compareRegions_json = None, sales_name = None, city_name = None,
          operator_name = None\<rparr>],
      kewen_daily_report =
        [k_row (ascii ''S1'') (ascii ''Central'') (ascii ''2025-12-18'') [''order_users'' \<mapsto> PInt 5]],
      promotion_daily_report = [], store_stats = []\<rparr>"

section \<open>Printing a rate and reading it back\<close>

lemma str_nat_small: "n < 10 \<Longrightarrow> str_nat n = [48 + n]"
  by (simp add: str_nat.simps)

lemma str_nat_digits: "c \<in> set (str_nat n) \<Longrightarrow> 48 \<le> c \<and> c \<le> 57"
proof (induction n arbitrary: c rule: str_nat.induct)
  case (1 n)
  show ?case
  proof (cases "n < 10")
    case True
    with "1.prems" show ?thesis by (simp add: str_nat_small)
  next
    case False
    have m: "n mod 10 < 10" by simp
    from False "1.prems" have "c \<in> set (str_nat (n div 10)) \<or> c = 48 + n mod 10"
      by (subst (asm) str_nat.simps) auto
    then show ?thesis
    proof
      assume "c \<in> set (str_nat (n div 10))"
      with "1.IH" False show ?thesis by blast
    next
      assume "c = 48 + n mod 10"
      with m show ?thesis by linarith
    qed
  qed
qed

lemma str_nat_nonempty: "str_nat n \<noteq> []"
  by (subst str_nat.simps) simp

lemma parse_digits_append:
  "parse_digits acc (xs @ ys) =
     (case parse_digits acc xs of None \<Rightarrow> None | Some a \<Rightarrow> parse_digits a ys)"
  by (induction xs arbitrary: acc) auto

lemma parse_digits_str_nat:
  "parse_digits acc (str_nat n) = Some (acc * 10 ^ length (str_nat n) + n)"
proof (induction n arbitrary: acc rule: str_nat.induct)
  case (1 n)
  show ?case
  proof (cases "n < 10")
    case True
    then show ?thesis by (simp add: str_nat_small)
  next
    case False
    have step: "str_nat n = str_nat (n div 10) @ [48 + n mod 10]"
      using False by (subst str_nat.simps) simp
    have m: "n mod 10 < 10" by simp
    have "parse_digits acc (str_nat n) =
            Some ((acc * 10 ^ length (str_nat (n div 10)) + n div 10) * 10 + n mod 10)"
      using "1.IH" [OF False, of acc] m by (simp add: step parse_digits_append)
    also have "(acc * 10 ^ length (str_nat (n div 10)) + n div 10) * 10 + n mod 10 =
                 acc * 10 ^ length (str_nat n) + n"
      by (simp add: step algebra_simps)
    finally show ?thesis .
  qed
qed

lemma parse_nat_str_nat: "parse_nat (str_nat n) = Some n"
  by (simp add: parse_nat_def str_nat_nonempty parse_digits_str_nat)

lemma takeWhile_digits:
  "takeWhile (\<lambda>c. c \<noteq> 46) (str_nat n @ 46 # r) = str_nat n"
proof -
  have "\<forall>c \<in> set (str_nat n). c \<noteq> 46"
    using str_nat_digits by fastforce
  then show ?thesis by (simp add: takeWhile_append2 takeWhile_append)
qed

lemma dropWhile_digits:
  "dropWhile (\<lambda>c. c \<noteq> 46) (str_nat n @ 46 # r) = 46 # r"
proof -
  have "\<forall>c \<in> set (str_nat n). c \<noteq> 46"
    using str_nat_digits by fastforce
  then show ?thesis by (simp add: dropWhile_append2 dropWhile_append)
qed

lemma hd_str_nat: "hd (str_nat n @ r) \<noteq> 45"
proof -
  have "hd (str_nat n) \<in> set (str_nat n)" by (simp add: str_nat_nonempty)
  then have "48 \<le> hd (str_nat n)" using str_nat_digits by blast
  then show ?thesis by (simp add: str_nat_nonempty)
qed

lemma repr_float1_tenths:
  "repr_float1 (of_int k / 10) =
     (if k < 0 then [45] else []) @ str_nat (nat (\<bar>k\<bar> div 10)) @ [46, 48 + nat (\<bar>k\<bar> mod 10)]"
proof -
  have a: "\<bar>(of_int k :: rat) / 10\<bar> = of_int \<bar>k\<bar> / of_int 10" by simp
  have f1: "\<lfloor>\<bar>(of_int k :: rat) / 10\<bar>\<rfloor> = \<bar>k\<bar> div 10"
    unfolding a by (rule floor_divide_of_int_eq)
  have "\<bar>(of_int k :: rat) / 10\<bar> * 10 = of_int \<bar>k\<bar>" by simp
  then have f2: "\<lfloor>\<bar>(of_int k :: rat) / 10\<bar> * 10\<rfloor> = \<bar>k\<bar>"
    by (simp only: floor_of_int)
  have lt: "nat (\<bar>k\<bar> mod 10) < 10" by simp
  have neg: "((of_int k :: rat) / 10 < 0) = (k < 0)" by simp
  show ?thesis
    unfolding repr_float1_def f1 f2 neg by (simp add: str_nat_small [OF lt])
qed

lemma py_float_form:
  assumes "d < 10"
  shows "py_float ((if neg then [45] else []) @ str_nat i @ [46, 48 + d]) =
           Inr (PFloat ((if neg then - 1 else 1) * (of_nat i + of_nat d / 10)))"
proof -
  have pd: "parse_nat [48 + d] = Some d"
    using assms by (simp add: parse_nat_def)
  show ?thesis
  proof (cases neg)
    case True
    then show ?thesis
      by (simp add: py_float_def takeWhile_digits dropWhile_digits parse_nat_str_nat pd)
  next
    case False
    then show ?thesis
      by (simp add: py_float_def takeWhile_digits dropWhile_digits parse_nat_str_nat pd
          hd_str_nat)
  qed
qed

lemma py_float_tenths: "py_float (repr_float1 (of_int k / 10)) = Inr (PFloat (of_int k / 10))"
proof -
  let ?i = "nat (\<bar>k\<bar> div 10)" and ?d = "nat (\<bar>k\<bar> mod 10)"
  have lt: "?d < 10" by simp
  have val: "(of_nat ?i :: rat) + of_nat ?d / 10 = of_int \<bar>k\<bar> / 10"
  proof -
    have "\<bar>k\<bar> div 10 * 10 + \<bar>k\<bar> mod 10 = \<bar>k\<bar>" by simp
    then have "(of_int (\<bar>k\<bar> div 10 * 10 + \<bar>k\<bar> mod 10) :: rat) = of_int \<bar>k\<bar>"
      by (simp only:)
    then have "(of_int (\<bar>k\<bar> div 10) :: rat) * 10 + of_int (\<bar>k\<bar> mod 10) = of_int \<bar>k\<bar>"
      by (simp only: of_int_add of_int_mult of_int_numeral)
    moreover have "(of_nat ?i :: rat) = of_int (\<bar>k\<bar> div 10)"
      by (simp add: pos_imp_zdiv_nonneg_iff)
    moreover have "(of_nat ?d :: rat) = of_int (\<bar>k\<bar> mod 10)" by simp
    ultimately have "(of_nat ?i :: rat) * 10 + of_nat ?d = of_int \<bar>k\<bar>"
      by (simp only:)
    then show ?thesis by (simp add: field_simps del: of_nat_nat of_int_abs)
  qed
  have sgn: "(if k < 0 then - 1 else 1) * ((of_int \<bar>k\<bar> :: rat) / 10) = of_int k / 10"
    by simp
  have "py_float (repr_float1 (of_int k / 10)) =
          Inr (PFloat ((if k < 0 then - 1 else 1) * (of_nat ?i + of_nat ?d / 10)))"
    unfolding repr_float1_tenths by (rule py_float_form [OF lt])
  then show ?thesis unfolding val sgn .
qed

lemma rstrip_tenths: "rstrip 37 (repr_float1 (of_int k / 10) @ [37]) = repr_float1 (of_int k / 10)"
proof -
  have lt: "nat (\<bar>k\<bar> mod 10) < 10" by simp
  then have "48 + nat (\<bar>k\<bar> mod 10) \<noteq> 37" by linarith
  then show ?thesis by (simp add: rstrip_def repr_float1_tenths)
qed

lemma tenths_not_zero_pct: "repr_float1 (of_int k / 10) @ [37] \<noteq> [48, 37]"
proof
  assume "repr_float1 (of_int k / 10) @ [37] = [48, 37]"
  then have "length (repr_float1 (of_int k / 10) @ [37]) = 2" by simp
  moreover have "length (str_nat (nat (\<bar>k\<bar> div 10))) \<ge> 1"
    using str_nat_nonempty [of "nat (\<bar>k\<bar> div 10)"] by (cases "str_nat (nat (\<bar>k\<bar> div 10))") auto
  ultimately show False by (simp add: repr_float1_tenths split: if_splits)
qed


lemma calc_rate_eq:
  "calc_rate nn d =
     (if positive d
      then (case nn of None \<Rightarrow> Inl TypeError | Some n \<Rightarrow> Inr (spec_rate n (the d)))
      else Inr (PInt 0))"
  by (auto simp: calc_rate_def positive_def spec_rate_def truthy_def py_truediv_def
      split: option.splits)

lemma calc_avg_price_eq:
  "calc_avg_price tt c =
     (if positive c
      then (case tt of None \<Rightarrow> Inl TypeError
            | Some t \<Rightarrow> Inr (py_round (PFloat (num_val t / num_val (the c))) 2))
      else Inr (PInt 0))"
  by (auto simp: calc_avg_price_def positive_def truthy_def py_truediv_def
      split: option.splits)

lemma calc_rate_Some: "calc_rate (Some n) (Some d) = Inr (spec_rate n d)"
  by (simp add: calc_rate_eq positive_def spec_rate_def)

lemma calc_avg_price_Some: "\<exists>p. calc_avg_price (Some t) (Some c) = Inr p"
  by (simp add: calc_avg_price_eq)

text \<open>The values that \<open>calc_rate\<close> returns: the integer zero, or a float with one decimal.\<close>

lemma spec_rate_cases: "spec_rate n d = PInt 0 \<or> (\<exists>k. spec_rate n d = PFloat (of_int k / 10))"
  by (auto simp: spec_rate_def)

lemma read_rate_int0:
  "(if fmt_pct (PInt 0) \<noteq> ascii ''0%'' then py_float (rstrip 37 (fmt_pct (PInt 0))) else Inr (PInt 0))
     = Inr (PInt 0)"
  by (simp add: fmt_pct_def str_int_def str_nat_small ascii_def)

lemma read_rate_tenths:
  "(if fmt_pct (PFloat (of_int k / 10)) \<noteq> ascii ''0%''
    then py_float (rstrip 37 (fmt_pct (PFloat (of_int k / 10)))) else Inr (PInt 0))
     = Inr (PFloat (of_int k / 10))"
proof -
  have "ascii ''0%'' = [48, 37]" by (simp add: ascii_def)
  then show ?thesis
    using tenths_not_zero_pct [of k]
    by (simp add: fmt_pct_def rstrip_tenths py_float_tenths)
qed

lemma read_rate:
  "(if fmt_pct (spec_rate n d) \<noteq> ascii ''0%''
    then py_float (rstrip 37 (fmt_pct (spec_rate n d))) else Inr (PInt 0))
     = Inr (spec_rate n d)"
  using spec_rate_cases [of n d] read_rate_int0 read_rate_tenths by metis

lemma calc_rate_diff_spec:
  "calc_rate_diff (fmt_pct (spec_rate n1 d1)) (fmt_pct (spec_rate n2 d2)) =
     Inr (spec_rate_delta (spec_rate n1 d1) (spec_rate n2 d2))"
  unfolding calc_rate_diff_def read_rate by (simp add: spec_rate_delta_def)

section \<open>The values of one store in the comparative report\<close>

lemma calc_avg_price_Some_eq:
  "calc_avg_price (Some t) (Some c) =
     Inr (if 0 < num_val c then py_round (PFloat (num_val t / num_val c)) 2 else PInt 0)"
  by (simp add: calc_avg_price_eq positive_def)

lemma week_metrics_eq:
  "week_metrics w =
     Inr \<lparr>w_verify_discount = safe_get_val w ''verify_after_discount'' (PInt 0),
        w_exposure = safe_get_val w ''exposure_users'' (PInt 0),
        w_visit = safe_get_val w ''visit_users'' (PInt 0),
        w_order_users = safe_get_val w ''order_users'' (PInt 0),
        w_order_coupons = safe_get_val w ''order_coupon_count'' (PInt 0),
        w_verify_users = safe_get_val w ''verify_users'' (PInt 0),
        w_verify_coupons = safe_get_val w ''verify_coupon_count'' (PInt 0),
        w_order_amount = safe_get_val w ''order_sale_amount'' (PInt 0),
        w_verify_amount = safe_get_val w ''verify_sale_amount'' (PInt 0),
        w_coupon_orders = safe_get_val w ''coupon_orders'' (PInt 0),
        w_phone_clicks = safe_get_val w ''phone_clicks'' (PInt 0),
        w_promo_cost = safe_get_val w ''promotion_cost'' (PInt 0),
        w_promo_exposure = safe_get_val w ''promotion_exposure'' (PInt 0),
        w_promo_clicks = safe_get_val w ''promotion_clicks'' (PInt 0),
        w_promo_orders = safe_get_val w ''promotion_orders'' (PInt 0),
        w_view_groupbuy = safe_get_val w ''view_groupbuy'' (PInt 0),
        w_view_phone = safe_get_val w ''view_phone'' (PInt 0),
        w_consult = safe_get_val w ''consult_users'' (PInt 0),
        w_address = safe_get_val w ''address_clicks'' (PInt 0),
        w_collect = safe_get_val w ''new_collect'' (PInt 0),
        w_good_reviews = safe_get_val w ''new_good_reviews'' (PInt 0),
        w_avg_price = (\<lambda>t c. if 0 < num_val c then py_round (PFloat (num_val t / num_val c)) 2 else PInt 0) (safe_get_val w ''verify_after_discount'' (PInt 0)) (safe_get_val w ''verify_users'' (PInt 0)),
        w_click_price = (\<lambda>t c. if 0 < num_val c then py_round (PFloat (num_val t / num_val c)) 2 else PInt 0) (safe_get_val w ''promotion_cost'' (PInt 0)) (safe_get_val w ''promotion_clicks'' (PInt 0)),
        w_exposure_rate = fmt_pct (spec_period_rate w ''visit_users'' ''exposure_users''),
        w_order_rate = fmt_pct (spec_period_rate w ''order_users'' ''visit_users''),
        w_promo_rate = fmt_pct (spec_period_rate w ''promotion_orders'' ''promotion_clicks''),
        w_collect_rate = fmt_pct (spec_period_rate w ''new_collect'' ''visit_users''),
        w_review_rate = fmt_pct (spec_period_rate w ''new_good_reviews'' ''verify_users'')\<rparr>"
  by (simp add: week_metrics_def Let_def calc_rate_Some calc_avg_price_Some_eq spec_period_rate_def)

lemma week_metrics_total: "\<exists>v. week_metrics w = Inr v"
  by (simp add: week_metrics_eq)

lemma week_metrics_rates:
  assumes "week_metrics w = Inr v"
  shows "w_exposure_rate v = fmt_pct (spec_period_rate w ''visit_users'' ''exposure_users'')"
    and "w_order_rate v = fmt_pct (spec_period_rate w ''order_users'' ''visit_users'')"
    and "w_promo_rate v = fmt_pct (spec_period_rate w ''promotion_orders'' ''promotion_clicks'')"
    and "w_collect_rate v = fmt_pct (spec_period_rate w ''new_collect'' ''visit_users'')"
    and "w_review_rate v = fmt_pct (spec_period_rate w ''new_good_reviews'' ''verify_users'')"
  using assms unfolding week_metrics_eq by auto

lemma week_diff_eq:
  assumes "week_metrics w1 = Inr v1" and "week_metrics w2 = Inr v2"
  shows "\<exists>d. week_diff v1 v2 = Inr d
     \<and> diff_exposure_rate d =
         spec_rate_delta (spec_period_rate w1 ''visit_users'' ''exposure_users'')
           (spec_period_rate w2 ''visit_users'' ''exposure_users'')
     \<and> diff_order_rate d =
         spec_rate_delta (spec_period_rate w1 ''order_users'' ''visit_users'')
           (spec_period_rate w2 ''order_users'' ''visit_users'')
     \<and> diff_promo_rate d =
         spec_rate_delta (spec_period_rate w1 ''promotion_orders'' ''promotion_clicks'')
           (spec_period_rate w2 ''promotion_orders'' ''promotion_clicks'')
     \<and> diff_collect_rate d =
         spec_rate_delta (spec_period_rate w1 ''new_collect'' ''visit_users'')
           (spec_period_rate w2 ''new_collect'' ''visit_users'')
     \<and> diff_review_rate d =
         spec_rate_delta (spec_period_rate w1 ''new_good_reviews'' ''verify_users'')
           (spec_period_rate w2 ''new_good_reviews'' ''verify_users'')
     \<and> diff_counts d = map (\<lambda>(a, b). py_sub b a) (zip (week_counts v1) (week_counts v2))
     \<and> diff_amounts d =
         map (\<lambda>(a, b). py_round (py_sub b a) 2) (zip (week_amounts v1) (week_amounts v2))"
  unfolding week_diff_def week_metrics_rates [OF assms(1)] week_metrics_rates [OF assms(2)]
    spec_period_rate_def calc_rate_diff_spec
  by (simp add: diff_counts_def diff_amounts_def week_counts_def week_amounts_def)

lemma week_compare_total:
  "\<exists>v1 v2 d. week_metrics w1 = Inr v1 \<and> week_metrics w2 = Inr v2 \<and> week_diff v1 v2 = Inr d
     \<and> week_compare w1 w2 = Inr (v1, v2, d)"
proof -
  obtain v1 where v1: "week_metrics w1 = Inr v1" using week_metrics_total by blast
  obtain v2 where v2: "week_metrics w2 = Inr v2" using week_metrics_total by blast
  obtain d where d: "week_diff v1 v2 = Inr d" using week_diff_eq [OF v1 v2] by blast
  have "week_compare w1 w2 = Inr (v1, v2, d)"
    by (simp add: week_compare_def v1 v2 d)
  with v1 v2 d show ?thesis by blast
qed







section \<open>The report loops return\<close>

lemma pct_of_eq:
  "pct_of a b = Inr (if 0 < num_val b then PFloat (num_val a / num_val b * 100) else PInt 0)"
  by (simp add: pct_of_def py_truediv_def)

lemma daily_store_total: "\<exists>res. daily_store e db sm rm d idx r = Inr res"
  by (simp add: daily_store_def Let_def pct_of_eq)

lemma daily_rows_total: "\<exists>res. daily_rows e db sm rm d used idx rs = Inr res"
proof (induction rs arbitrary: used idx)
  case Nil
  show ?case by simp
next
  case (Cons r rs)
  obtain name srow det where s: "daily_store e db sm rm d idx r = Inr (name, srow, det)"
    using daily_store_total [of e db sm rm d idx r] by (metis prod_cases3)
  obtain used' sheet where a: "assign_sheet_name used name = (used', sheet)"
    by (cases "assign_sheet_name used name") blast
  obtain srows sheets where
    rest: "daily_rows e db sm rm d used' (Suc idx) rs = Inr (srows, sheets)"
    using Cons.IH [of used' "Suc idx"] by (metis surj_pair)
  show ?case by (simp add: s a rest)
qed

lemma shop_block_total: "\<exists>rows. shop_block sm s1 s2 n w1 w2 sid = Inr rows"
proof -
  obtain v1 v2 d where "week_compare w1 w2 = Inr (v1, v2, d)"
    using week_compare_total by blast
  then show ?thesis by (simp add: shop_block_def Let_def)
qed

lemma shop_blocks_total: "\<exists>rows. shop_blocks sm s1 s2 d1 d2 n sids = Inr rows"
proof (induction sids arbitrary: n)
  case Nil
  show ?case by simp
next
  case (Cons sid sids)
  obtain rows where b: "shop_block sm s1 s2 n (d1 sid) (d2 sid) sid = Inr rows"
    using shop_block_total by blast
  obtain more where m: "shop_blocks sm s1 s2 d1 d2 (Suc n) sids = Inr more"
    using Cons.IH by blast
  show ?case by (simp add: b m)
qed

lemma all_shop_ids_empty: "(all_shop_ids rows1 rows2 = []) = (rows1 = [] \<and> rows2 = [])"
proof -
  have "(sort (remdups (map shop_id rows1 @ map shop_id rows2)) = []) =
          (remdups (map shop_id rows1 @ map shop_id rows2) = [])"
    by (metis length_0_conv length_sort)
  then show ?thesis by (simp add: all_shop_ids_def)
qed

section \<open>Cells and sheet names of the reports\<close>

lemma daily_store_cells:
  "\<exists>srow det.
     daily_store e db sm rm d idx r = Inr (display_name r, srow, det)
   \<and> length srow = 23 \<and> length det = 39
   \<and> srow ! 21 = CStr (rank_str (col r ''order_user_rank''))
   \<and> srow ! 22 = CStr (rank_str (col r ''verify_amount_rank''))
   \<and> det ! 31 ! 1 =
       CStr (rank_display
         (region_display e (case sm (shop_id r) of None \<Rightarrow> [] | Some i \<Rightarrow> city i) (rm (shop_id r)))
         (col r ''order_user_rank''))
   \<and> det ! 32 ! 1 =
       CStr (rank_display
         (region_display e (case sm (shop_id r) of None \<Rightarrow> [] | Some i \<Rightarrow> city i) (rm (shop_id r)))
         (col r ''verify_amount_rank''))"
  by (simp add: daily_store_def Let_def pct_of_eq)

lemma daily_rows_titles:
  "daily_rows e db sm rm d used idx rs = Inr (srows, sheets) \<Longrightarrow>
     map fst sheets = sheet_titles used (map display_name rs)"
proof (induction rs arbitrary: used idx srows sheets)
  case Nil
  then show ?case by simp
next
  case (Cons r rs)
  obtain srow det where s: "daily_store e db sm rm d idx r = Inr (display_name r, srow, det)"
    using daily_store_cells [of e db sm rm d idx r] by blast
  obtain used' sheet where a: "assign_sheet_name used (display_name r) = (used', sheet)"
    by (cases "assign_sheet_name used (display_name r)") blast
  obtain srows' sheets' where
    rest: "daily_rows e db sm rm d used' (Suc idx) rs = Inr (srows', sheets')"
    using daily_rows_total [of e db sm rm d used' "Suc idx" rs] by (metis surj_pair)
  from Cons.prems have "sheets = (sheet, det) # sheets'"
    by (simp add: s a rest)
  moreover have "map fst sheets' = sheet_titles used' (map display_name rs)"
    using Cons.IH [OF rest] .
  ultimately show ?case by (simp add: a)
qed


lemma sheet_titles_length: "length (sheet_titles used ns) = length ns"
  by (induction ns arbitrary: used) (simp_all add: Let_def split: prod.splits)

lemma daily_report_titles:
  assumes "daily_query_rows e db d accounts \<noteq> []"
  shows "\<exists>wb. generate_daily_report e db d accounts = Inr wb
     \<and> map fst (tl (wb_sheets wb)) =
         sheet_titles Map.empty (map display_name (daily_query_rows e db d accounts))"
proof -
  obtain srows sheets where
    dr: "daily_rows e db (get_shop_info_mapping e db accounts)
           (get_region_info_mapping e db accounts) d Map.empty (Suc 0)
           (daily_query_rows e db d accounts) = Inr (srows, sheets)"
    using daily_rows_total by (metis surj_pair)
  have t: "map fst sheets =
      sheet_titles Map.empty (map display_name (daily_query_rows e db d accounts))"
    using daily_rows_titles [OF dr] .
  show ?thesis
    using assms t by (simp add: generate_daily_report_def Let_def dr)
qed

lemma clean_sheet_name_legal:
  "clean_sheet_name name 31 \<noteq> []
   \<and> length (clean_sheet_name name 31) \<le> 31
   \<and> set (clean_sheet_name name 31) \<inter> set illegal_chars = {}"
proof -
  have s: "set (ascii ''Sheet'') \<inter> set illegal_chars = {}"
    by (simp add: ascii_def illegal_chars_def)
  have n: "ascii ''Sheet'' \<noteq> []" and l: "length (ascii ''Sheet'') \<le> 31"
    by (simp_all add: ascii_def)
  have t: "set (take 31 (filter (\<lambda>c. c \<notin> set illegal_chars) name)) \<inter> set illegal_chars = {}"
    using set_take_subset [of 31 "filter (\<lambda>c. c \<notin> set illegal_chars) name"] by auto
  have f: "set (filter (\<lambda>c. c \<notin> set illegal_chars) name) \<inter> set illegal_chars = {}"
    by auto
  show ?thesis
    unfolding clean_sheet_name_def Let_def using s n l t f by (auto simp del: set_filter)
qed

lemma digits_legal: "set (str_nat n) \<inter> set illegal_chars = {}"
proof -
  have "\<And>c. c \<in> set (str_nat n) \<Longrightarrow> c \<notin> set illegal_chars"
  proof -
    fix c assume "c \<in> set (str_nat n)"
    then have "48 \<le> c \<and> c \<le> 57" by (rule str_nat_digits)
    then show "c \<notin> set illegal_chars" by (auto simp: illegal_chars_def)
  qed
  then show ?thesis by blast
qed

lemma assigned_name_legal:
  assumes "assign_sheet_name used name = (used', sheet)"
  shows "sheet \<noteq> [] \<and> set sheet \<inter> set illegal_chars = {}"
proof (cases "used (clean_sheet_name name 31)")
  case None
  with assms have "sheet = clean_sheet_name name 31"
    by (simp add: assign_sheet_name_def Let_def)
  then show ?thesis using clean_sheet_name_legal [of name] by simp
next
  case (Some k)
  with assms have sh: "sheet = take 28 (clean_sheet_name name 31) @ ascii ''_'' @ str_nat (k + 1)"
    by (auto simp: assign_sheet_name_def Let_def)
  have u: "set (ascii ''_'') \<inter> set illegal_chars = {}"
    by (simp add: ascii_def illegal_chars_def)
  have t: "set (take 28 (clean_sheet_name name 31)) \<inter> set illegal_chars = {}"
    using set_take_subset [of 28 "clean_sheet_name name 31"] clean_sheet_name_legal [of name]
    by blast
  have "ascii ''_'' \<noteq> []" by (simp add: ascii_def)
  then show ?thesis
    unfolding sh using u t digits_legal [of "k + 1"] by (simp add: Int_Un_distrib2)
qed

lemma sheet_titles_repeated:
  assumes "used (clean_sheet_name name 31) = Some k" and "i < n"
  shows "sheet_titles used (replicate n name) ! i =
           take 28 (clean_sheet_name name 31) @ ascii ''_'' @ str_nat (k + i + 1)"
  using assms
proof (induction n arbitrary: used k i)
  case 0
  then show ?case by simp
next
  case (Suc n)
  let ?c = "clean_sheet_name name 31"
  have a: "assign_sheet_name used name =
      (used(?c \<mapsto> k + 1), take 28 ?c @ ascii ''_'' @ str_nat (k + 1))"
    using Suc.prems(1) by (simp add: assign_sheet_name_def Let_def)
  show ?case
  proof (cases i)
    case 0
    then show ?thesis by (simp add: a)
  next
    case (Suc j)
    have u: "(used(?c \<mapsto> k + 1)) ?c = Some (k + 1)" by simp
    have "j < n" using Suc Suc.prems(2) by simp
    then have ih: "sheet_titles (used(?c \<mapsto> k + 1)) (replicate n name) ! j =
        take 28 ?c @ ascii ''_'' @ str_nat (k + 1 + j + 1)"
      by (rule Suc.IH [of "used(?c \<mapsto> k + 1)" "k + 1" j, OF u])
    have e: "k + 1 + j + 1 = k + i + 1" using Suc by simp
    have "sheet_titles used (replicate (Suc n) name) ! i =
        sheet_titles (used(?c \<mapsto> k + 1)) (replicate n name) ! j"
      unfolding Suc by (simp add: a del: fun_upd_apply)
    then show ?thesis unfolding ih e .
  qed
qed

lemma sheet_titles_first_then_repeated:
  assumes "i < n"
  shows "sheet_titles Map.empty (name # replicate n name) ! Suc i =
           take 28 (clean_sheet_name name 31) @ ascii ''_'' @ str_nat (i + 2)"
proof -
  let ?c = "clean_sheet_name name 31"
  have a: "assign_sheet_name Map.empty name = (Map.empty(?c \<mapsto> 1), ?c)"
    by (simp add: assign_sheet_name_def Let_def)
  have u: "(Map.empty(?c \<mapsto> 1)) ?c = Some 1" by simp
  have r: "sheet_titles (Map.empty(?c \<mapsto> 1)) (replicate n name) ! i =
      take 28 ?c @ ascii ''_'' @ str_nat (1 + i + 1)"
    by (rule sheet_titles_repeated [of "Map.empty(?c \<mapsto> 1)" name 1 i n, OF u assms])
  have e: "1 + i + 1 = i + 2" by simp
  have "sheet_titles Map.empty (name # replicate n name) ! Suc i =
      sheet_titles (Map.empty(?c \<mapsto> 1)) (replicate n name) ! i"
    by (simp add: a del: fun_upd_apply)
  then show ?thesis unfolding r e .
qed

lemma thirty_two_characters:
  "length (take 28 (clean_sheet_name (ascii ''Thirty-one characters long name'') 31) @
          ascii ''_'' @ str_nat (98 + 2)) = 32"
  by code_simp

lemma same_names_rows:
  "map display_name (daily_query_rows e db_same_names (ascii ''2025-12-18'') None) =
     [ascii ''A'', ascii ''A'', ascii ''A_2'']"
  by code_simp

lemma same_names_titles:
  "sheet_titles Map.empty [ascii ''A'', ascii ''A'', ascii ''A_2''] =
     [ascii ''A'', ascii ''A_2'', ascii ''A_2'']"
  by code_simp

lemma rank_str_absent: "rank_str None = dashes" and "rank_str (Some (PInt 0)) = dashes"
  by (simp_all add: rank_str_def truthy_def)

lemma rank_str_below_100:
  "0 < n \<Longrightarrow> n < 100 \<Longrightarrow> rank_str (Some (PInt n)) = rank_pre @ str_int n @ rank_post"
  by (simp add: rank_str_def truthy_def)

lemma rank_str_from_100: "100 \<le> n \<Longrightarrow> rank_str (Some (PInt n)) = gt100"
  by (simp add: rank_str_def truthy_def)

lemma rank_display_below_100:
  "0 < n \<Longrightarrow> n < 100 \<Longrightarrow>
     rank_display rd (Some (PInt n)) = rd @ colon @ rank_pre @ str_int n @ rank_post"
  by (simp add: rank_display_def truthy_def)

lemma rank_display_from_100: "100 \<le> n \<Longrightarrow> rank_display rd (Some (PInt n)) = rd @ colon @ gt100"
  by (simp add: rank_display_def truthy_def)

lemma rank_display_absent: "rank_display rd None = rd @ colon @ gt100"
  by (simp add: rank_display_def)

lemma daily_report_first_store:
  assumes "daily_query_rows e db d accounts = r # rs"
  shows "\<exists>wb srow det.
       generate_daily_report e db d accounts = Inr wb
     \<and> daily_store e db (get_shop_info_mapping e db accounts)
         (get_region_info_mapping e db accounts) d (Suc 0) r = Inr (display_name r, srow, det)
     \<and> snd (wb_sheets wb ! 0) ! 1 = srow
     \<and> snd (wb_sheets wb ! 1) = det"
proof -
  let ?sm = "get_shop_info_mapping e db accounts"
  let ?rm = "get_region_info_mapping e db accounts"
  obtain srow det where s: "daily_store e db ?sm ?rm d (Suc 0) r = Inr (display_name r, srow, det)"
    using daily_store_cells [of e db ?sm ?rm d "Suc 0" r] by blast
  obtain used' sheet where a: "assign_sheet_name Map.empty (display_name r) = (used', sheet)"
    by (cases "assign_sheet_name Map.empty (display_name r)") blast
  obtain srows sheets where
    rest: "daily_rows e db ?sm ?rm d used' (Suc (Suc 0)) rs = Inr (srows, sheets)"
    using daily_rows_total [of e db ?sm ?rm d used' "Suc (Suc 0)" rs] by (metis surj_pair)
  have "generate_daily_report e db d accounts =
      Inr \<lparr>wb_path = generate_temp_filename e (daily_prefix @ drop_hyphens d),
           wb_sheets = (summary_title, summary_headers # srow # srows) # (sheet, det) # sheets\<rparr>"
    by (simp add: generate_daily_report_def Let_def assms s a rest)
  with s show ?thesis by simp
qed

lemma no_accounts_no_mapping:
  "accounts_tbl db = [] \<Longrightarrow> get_shop_info_mapping e db accounts sid = None"
  "accounts_tbl db = [] \<Longrightarrow> get_region_info_mapping e db accounts sid = None"
  by (simp_all add: get_shop_info_mapping_def get_region_info_mapping_def)

lemma same_names_first_row:
  "\<exists>r rs. daily_query_rows e db_same_names (ascii ''2025-12-18'') None = r # rs
     \<and> col r ''order_user_rank'' = None \<and> col r ''verify_amount_rank'' = None"
proof -
  have "col (hd (daily_query_rows e db_same_names (ascii ''2025-12-18'') None)) ''order_user_rank''
      = None"
    by code_simp
  moreover have
    "col (hd (daily_query_rows e db_same_names (ascii ''2025-12-18'') None)) ''verify_amount_rank''
      = None"
    by code_simp
  moreover have "daily_query_rows e db_same_names (ascii ''2025-12-18'') None \<noteq> []"
    using same_names_rows [of e] by auto
  ultimately show ?thesis
    by (cases "daily_query_rows e db_same_names (ascii ''2025-12-18'') None") auto
qed

lemma shop_block_name_cell:
  "\<exists>rows. shop_block sm s1 s2 n w1 w2 sid = Inr rows \<and> length rows = 8
     \<and> rows ! 1 ! 4 = str_cell (block_shop_name w1 w2)"
proof -
  obtain v1 v2 d where "week_compare w1 w2 = Inr (v1, v2, d)"
    using week_compare_total by blast
  then show ?thesis by (simp add: shop_block_def Let_def)
qed

lemma shop_blocks_two:
  "\<exists>rows. shop_blocks sm s1 s2 d1 d2 n [x, y] = Inr rows \<and> length rows = 16
     \<and> rows ! 1 ! 4 = str_cell (block_shop_name (d1 x) (d2 x))
     \<and> rows ! 9 ! 4 = str_cell (block_shop_name (d1 y) (d2 y))"
proof -
  obtain bx where bx: "shop_block sm s1 s2 n (d1 x) (d2 x) x = Inr bx" and lx: "length bx = 8"
    and nx: "bx ! 1 ! 4 = str_cell (block_shop_name (d1 x) (d2 x))"
    using shop_block_name_cell by blast
  obtain by' where by': "shop_block sm s1 s2 (Suc n) (d1 y) (d2 y) y = Inr by'"
    and ly: "length by' = 8"
    and ny: "by' ! 1 ! 4 = str_cell (block_shop_name (d1 y) (d2 y))"
    using shop_block_name_cell by blast
  have "shop_blocks sm s1 s2 d1 d2 n [x, y] = Inr (bx @ by')"
    by (simp add: bx by')
  moreover have "(bx @ by') ! 1 = bx ! 1" using lx by (simp add: nth_append)
  moreover have "(bx @ by') ! 9 = by' ! 1" using lx by (simp add: nth_append)
  ultimately show ?thesis using lx ly nx ny by simp
qed

lemma two_stores_ids:
  "all_shop_ids
     (sql_week (joined db_two_stores) (ascii ''2025-12-01'') (ascii ''2025-12-07''))
     (sql_week (joined db_two_stores) (ascii ''2025-12-08'') (ascii ''2025-12-14''))
   = [ascii ''S1'', ascii ''S2'']"
  by code_simp

lemma two_stores_names:
  "block_shop_name
     (dict_of_rows (sql_week (joined db_two_stores) (ascii ''2025-12-01'') (ascii ''2025-12-07''))
        (ascii ''S1''))
     (dict_of_rows (sql_week (joined db_two_stores) (ascii ''2025-12-08'') (ascii ''2025-12-14''))
        (ascii ''S1'')) = Some (ascii ''Central'')"
  "block_shop_name
     (dict_of_rows (sql_week (joined db_two_stores) (ascii ''2025-12-01'') (ascii ''2025-12-07''))
        (ascii ''S2''))
     (dict_of_rows (sql_week (joined db_two_stores) (ascii ''2025-12-08'') (ascii ''2025-12-14''))
        (ascii ''S2'')) = Some (ascii ''North'')"
  by code_simp+

lemma malformed_blob_no_stores:
  "json_loads e blob = None \<Longrightarrow> account_store_ids e (Some (JStr blob)) = []"
  by (simp add: account_store_ids_def load_blob_def)

lemma empty_filter_is_no_filter:
  "daily_shop_ids_filter e db accounts = Some [] \<Longrightarrow>
     daily_query_rows e db d accounts = sql_daily db d None"
  by (simp add: daily_query_rows_def)

lemma one_account_rows:
  "map shop_id (sql_daily (db_one_account blob) (ascii ''2025-12-18'') None) = [ascii ''S1'']"
  by code_simp

text \<open>The comparative report has a block for every store with a row in either period,
  whatever the accounts.\<close>

lemma shop_blocks_length:
  "shop_blocks sm s1 s2 d1 d2 n sids = Inr rows \<Longrightarrow> length rows = 8 * length sids"
proof (induction sids arbitrary: n rows)
  case Nil
  then show ?case by simp
next
  case (Cons sid sids)
  obtain b where b: "shop_block sm s1 s2 n (d1 sid) (d2 sid) sid = Inr b" and l: "length b = 8"
    using shop_block_name_cell by blast
  obtain more where m: "shop_blocks sm s1 s2 d1 d2 (Suc n) sids = Inr more"
    using shop_blocks_total by blast
  from Cons.prems have "rows = b @ more" by (simp add: b m)
  with l Cons.IH [OF m] show ?case by simp
qed

lemma weekly_report_covers_all_stores:
  assumes "\<not> (sql_week (joined db) s1 e1 = [] \<and> sql_week (joined db) s2 e2 = [])"
  shows "\<exists>wb rows. generate_weekly_report e db s1 e1 s2 e2 accounts = Inr wb
     \<and> wb_sheets wb = [(summary_title, rows)]
     \<and> length rows =
         8 * length (all_shop_ids (sql_week (joined db) s1 e1) (sql_week (joined db) s2 e2))"
proof -
  let ?ids = "all_shop_ids (sql_week (joined db) s1 e1) (sql_week (joined db) s2 e2)"
  obtain rows where
    sb: "shop_blocks (get_shop_info_mapping e db accounts) (period_str s1 e1) (period_str s2 e2)
           (dict_of_rows (sql_week (joined db) s1 e1)) (dict_of_rows (sql_week (joined db) s2 e2))
           (Suc 0) ?ids = Inr rows"
    using shop_blocks_total by blast
  have l: "length rows = 8 * length ?ids" using shop_blocks_length [OF sb] .
  have ne: "?ids \<noteq> []" using assms by (simp add: all_shop_ids_empty)
  have "generate_weekly_report e db s1 e1 s2 e2 accounts =
      Inr \<lparr>wb_path = generate_temp_filename e
                    (weekly_prefix @ drop_hyphens s2 @ ascii ''_'' @ drop_hyphens e2),
           wb_sheets = [(summary_title, rows)]\<rparr>"
    using ne by (simp add: generate_weekly_report_def Let_def sb)
  with l show ?thesis by simp
qed

section \<open>The claims\<close>


text \<open>
  Claim C9. For all date ranges and every optional account list, the monthly report and
  the custom report are the weekly (two-period) pipeline run on the caller's ranges:
  nothing distinguishes the three kinds, and the custom report's store list has no effect.
\<close>

theorem comparative_kinds_share_pipeline:
  "generate_monthly_report e db s1 e1 s2 e2 accounts =
     generate_weekly_report e db s1 e1 s2 e2 accounts
   \<and> generate_custom_report e db s1 e1 s2 e2 shop_ids accounts =
     generate_weekly_report e db s1 e1 s2 e2 accounts"
  by (simp add: generate_monthly_report_def generate_custom_report_def)


text \<open>
  Two instances: the specification's scenario C (a zero denominator in period A), and an
  input on which the delta of the rates differs from the rate of the differences.
\<close>

lemma scenario_C_zero_denominator:
  "map_sum id (\<lambda>(v_a, v_b, d). (w_order_rate v_a, w_order_rate v_b, diff_order_rate d))
     (week_compare
        (Some \<lparr>shop_id = ascii ''S1'', shop_name = Some (ascii ''Central''),
               col = [''order_users'' \<mapsto> PInt 0]\<rparr>)
        (Some \<lparr>shop_id = ascii ''S1'', shop_name = Some (ascii ''Central''),
               col = [''order_users'' \<mapsto> PInt 10, ''visit_users'' \<mapsto> PInt 50]\<rparr>))
   = Inr (ascii ''0%'', ascii ''20.0%'', ascii ''20.0%'')"
  by code_simp

lemma rate_delta_is_not_ratio_of_differences:
  "map_sum id (\<lambda>(v_a, v_b, d). diff_order_rate d)
     (week_compare
        (Some \<lparr>shop_id = ascii ''S1'', shop_name = Some (ascii ''Central''),
               col = [''order_users'' \<mapsto> PInt 10, ''visit_users'' \<mapsto> PInt 100]\<rparr>)
        (Some \<lparr>shop_id = ascii ''S1'', shop_name = Some (ascii ''Central''),
               col = [''order_users'' \<mapsto> PInt 40, ''visit_users'' \<mapsto> PInt 200]\<rparr>))
   = Inr (ascii ''10.0%'')
   \<and> fmt_pct (spec_rate (PInt (40 - 10)) (PInt (200 - 100))) = ascii ''30.0%''"
  by code_simp



text \<open>Scenario B itself: \<open>order_users = 20\<close> in period A and no row in period B give
  a zero for period B and \<open>diff_order_users = -20\<close>.\<close>

lemma scenario_B_absent_period:
  "map_sum id (\<lambda>(v_a, v_b, d). (w_order_users v_b, diff_order_users d))
     (week_compare
        (Some \<lparr>shop_id = ascii ''S1'', shop_name = Some (ascii ''Central''),
               col = [''order_users'' \<mapsto> PInt 20]\<rparr>)
        None)
   = Inr (PInt 0, PInt (- 20))"
  by code_simp



text \<open>
  Claim C2, at a failing input. The only account of the request has a stores blob that the
  decoder rejects. Resolution raises nothing and yields zero stores, so
  \<open>shop_ids_filter\<close> is the empty list. The query's store condition is added under
  \<open>if shop_ids_filter:\<close>, which is false for the empty list, so the query runs without
  it: the report covers the store \<open>S1\<close> that has a row on that day, although it
  belongs to no named account, and no no-data error is raised.
\<close>

theorem malformed_only_account_reports_all_stores:
  assumes "json_loads e blob = None"
  shows "account_store_ids e (Some (JStr blob)) = []
     \<and> daily_shop_ids_filter e (db_one_account blob) (Some [ascii ''acctX'']) = Some []
     \<and> map shop_id (daily_query_rows e (db_one_account blob) (ascii ''2025-12-18'')
          (Some [ascii ''acctX''])) = [ascii ''S1'']
     \<and> (\<exists>wb. generate_daily_report e (db_one_account blob) (ascii ''2025-12-18'')
          (Some [ascii ''acctX'']) = Inr wb
          \<and> map fst (tl (wb_sheets wb)) = [ascii ''Central''])"
proof -
  let ?db = "db_one_account blob" and ?d = "ascii ''2025-12-18''"
  let ?acc = "Some [ascii ''acctX'']"
  have s: "account_store_ids e (Some (JStr blob)) = []"
    using assms by (rule malformed_blob_no_stores)
  have x: "ascii ''acctX'' \<noteq> []" by (simp add: ascii_def)
  have f: "daily_shop_ids_filter e ?db ?acc = Some []"
    by (simp add: daily_shop_ids_filter_def db_one_account_def s)
  have q: "daily_query_rows e ?db ?d ?acc = sql_daily ?db ?d None"
    using f by (rule empty_filter_is_no_filter)
  have ids: "map shop_id (daily_query_rows e ?db ?d ?acc) = [ascii ''S1'']"
    unfolding q by (rule one_account_rows)
  then have ne: "daily_query_rows e ?db ?d ?acc \<noteq> []" by auto
  have names: "map display_name (sql_daily ?db ?d None) = [ascii ''Central'']"
    by code_simp
  have t: "sheet_titles Map.empty [ascii ''Central''] = [ascii ''Central'']"
    by code_simp
  have "\<exists>wb. generate_daily_report e ?db ?d ?acc = Inr wb
      \<and> map fst (tl (wb_sheets wb)) = [ascii ''Central'']"
    using daily_report_titles [OF ne] unfolding q names t .
  with s f ids show ?thesis by blast
qed

text \<open>The hypothesis holds for the text \<open>{not json\<close>.\<close>

theorem malformed_only_account_witness:
  "json_loads env0 (ascii ''{not json'') = None
   \<and> account_store_ids env0 (Some (JStr (ascii ''{not json''))) = []
   \<and> daily_shop_ids_filter env0 (db_one_account (ascii ''{not json'')) (Some [ascii ''acctX''])
       = Some []
   \<and> map shop_id (daily_query_rows env0 (db_one_account (ascii ''{not json''))
        (ascii ''2025-12-18'') (Some [ascii ''acctX''])) = [ascii ''S1'']
   \<and> (\<exists>wb. generate_daily_report env0 (db_one_account (ascii ''{not json''))
        (ascii ''2025-12-18'') (Some [ascii ''acctX'']) = Inr wb
        \<and> map fst (tl (wb_sheets wb)) = [ascii ''Central''])"
proof -
  have h: "json_loads env0 (ascii ''{not json'') = None"
    by (simp add: env0_def ascii_def)
  from h malformed_only_account_reports_all_stores [OF h] show ?thesis by blast
qed

text \<open>
  Claim C3, at a failing input. The custom report is asked for store \<open>S1\<close> only, on data
  that hold \<open>S1\<close> in the first period and \<open>S2\<close> in the second. The store list is not
  passed on, and the query has no store condition: the summary sheet has the eight-row
  blocks of both stores. (Nor do the accounts restrict the stores: they select metadata
  only, \<open>weekly_report_covers_all_stores\<close>.)
\<close>

theorem custom_report_ignores_store_list:
  "\<exists>wb rows.
     generate_custom_report e db_two_stores (ascii ''2025-12-01'') (ascii ''2025-12-07'')
       (ascii ''2025-12-08'') (ascii ''2025-12-14'') (Some [ascii ''S1'']) None = Inr wb
   \<and> wb_sheets wb = [(summary_title, rows)]
   \<and> length rows = 16
   \<and> rows ! 1 ! 4 = CStr (ascii ''Central'')
   \<and> rows ! 9 ! 4 = CStr (ascii ''North'')"
proof -
  let ?r1 = "sql_week (joined db_two_stores) (ascii ''2025-12-01'') (ascii ''2025-12-07'')"
  let ?r2 = "sql_week (joined db_two_stores) (ascii ''2025-12-08'') (ascii ''2025-12-14'')"
  obtain rows where
    b: "shop_blocks (get_shop_info_mapping e db_two_stores None)
          (period_str (ascii ''2025-12-01'') (ascii ''2025-12-07''))
          (period_str (ascii ''2025-12-08'') (ascii ''2025-12-14''))
          (dict_of_rows ?r1) (dict_of_rows ?r2) 1 [ascii ''S1'', ascii ''S2''] = Inr rows"
    and l: "length rows = 16"
    and n1: "rows ! 1 ! 4 =
        str_cell (block_shop_name (dict_of_rows ?r1 (ascii ''S1'')) (dict_of_rows ?r2 (ascii ''S1'')))"
    and n2: "rows ! 9 ! 4 =
        str_cell (block_shop_name (dict_of_rows ?r1 (ascii ''S2'')) (dict_of_rows ?r2 (ascii ''S2'')))"
    using shop_blocks_two by blast
  have ne: "[ascii ''S1'', ascii ''S2''] \<noteq> ([] :: pystr list)" by simp
  have "generate_custom_report e db_two_stores (ascii ''2025-12-01'') (ascii ''2025-12-07'')
       (ascii ''2025-12-08'') (ascii ''2025-12-14'') (Some [ascii ''S1'']) None =
     Inr \<lparr>wb_path = generate_temp_filename e
                    (weekly_prefix @ drop_hyphens (ascii ''2025-12-08'') @ ascii ''_'' @
                     drop_hyphens (ascii ''2025-12-14'')),
          wb_sheets = [(summary_title, rows)]\<rparr>"
    unfolding generate_custom_report_def generate_weekly_report_def Let_def two_stores_ids
    by (simp only: b ne if_False bind_res.simps)
  moreover have "rows ! 1 ! 4 = CStr (ascii ''Central'')"
    unfolding n1 two_stores_names by (simp add: str_cell_def)
  moreover have "rows ! 9 ! 4 = CStr (ascii ''North'')"
    unfolding n2 two_stores_names by (simp add: str_cell_def)
  ultimately show ?thesis using l by simp
qed

text \<open>
  Claim C5, at two failing inputs. Three stores named \<open>A\<close>, \<open>A\<close>, \<open>A_2\<close>: the
  second gets \<open>A_2\<close>, which the counter does not record, and the third gets \<open>A_2\<close>
  again. One hundred stores with the same name of 31 characters: the hundredth gets 28
  characters, the underscore and \<open>100\<close>, 32 characters in all. (The names are never
  empty and never hold one of the seven characters: \<open>assigned_name_legal\<close>.)
\<close>

theorem sheet_names_collide_and_overflow:
  "(\<exists>wb. generate_daily_report e db_same_names (ascii ''2025-12-18'') None = Inr wb
      \<and> map fst (tl (wb_sheets wb)) = [ascii ''A'', ascii ''A_2'', ascii ''A_2''])
   \<and> length (sheet_titles Map.empty
        (ascii ''Thirty-one characters long name'' #
         replicate 99 (ascii ''Thirty-one characters long name'')) ! 99) = 32"
proof -
  have ne: "daily_query_rows e db_same_names (ascii ''2025-12-18'') None \<noteq> []"
    using same_names_rows [of e] by auto
  have a: "\<exists>wb. generate_daily_report e db_same_names (ascii ''2025-12-18'') None = Inr wb
      \<and> map fst (tl (wb_sheets wb)) = [ascii ''A'', ascii ''A_2'', ascii ''A_2'']"
    using daily_report_titles [OF ne] unfolding same_names_rows same_names_titles .
  have lt: "(98::nat) < 99" by simp
  have n: "(99::nat) = Suc 98" by simp
  let ?titles = "sheet_titles Map.empty
        (ascii ''Thirty-one characters long name'' #
         replicate 99 (ascii ''Thirty-one characters long name''))"
  have "length (?titles ! Suc 98) = 32"
    unfolding sheet_titles_first_then_repeated [OF lt] by (rule thirty_two_characters)
  moreover have "?titles ! 99 = ?titles ! Suc 98" by (simp only: n)
  ultimately have b: "length (?titles ! 99) = 32" by simp
  from a b show ?thesis by blast
qed

text \<open>
  Claim C7, at a failing input. A store without rank values: the summary sheet shows the
  dashes for both ranks, the detail sheet shows "greater than rank 100" after the region
  and the colon. (Present ranks are shown alike on both sheets:
  \<open>rank_str_below_100\<close>, \<open>rank_str_from_100\<close>, \<open>rank_display_below_100\<close>,
  \<open>rank_display_from_100\<close>. No rank enters a difference: the comparative report reads
  no rank column.)
\<close>

theorem absent_rank_differs_between_sheets:
  "\<exists>wb. generate_daily_report e db_same_names (ascii ''2025-12-18'') None = Inr wb
     \<and> snd (wb_sheets wb ! 0) ! 1 ! 21 = CStr dashes
     \<and> snd (wb_sheets wb ! 0) ! 1 ! 22 = CStr dashes
     \<and> snd (wb_sheets wb ! 1) ! 31 ! 1 = CStr (colon @ gt100)
     \<and> snd (wb_sheets wb ! 1) ! 32 ! 1 = CStr (colon @ gt100)"
proof -
  let ?d = "ascii ''2025-12-18''"
  obtain r rs where q: "daily_query_rows e db_same_names ?d None = r # rs"
    and o: "col r ''order_user_rank'' = None" and v: "col r ''verify_amount_rank'' = None"
    using same_names_first_row by blast
  have acc: "accounts_tbl db_same_names = []" by (simp add: db_same_names_def)
  obtain wb srow det where wb: "generate_daily_report e db_same_names ?d None = Inr wb"
    and s: "daily_store e db_same_names (get_shop_info_mapping e db_same_names None)
         (get_region_info_mapping e db_same_names None) ?d (Suc 0) r = Inr (display_name r, srow, det)"
    and c0: "snd (wb_sheets wb ! 0) ! 1 = srow" and c1: "snd (wb_sheets wb ! 1) = det"
    using daily_report_first_store [OF q] by blast
  obtain srow' det' where s': "daily_store e db_same_names (get_shop_info_mapping e db_same_names None)
         (get_region_info_mapping e db_same_names None) ?d (Suc 0) r = Inr (display_name r, srow', det')"
    and cells: "srow' ! 21 = CStr (rank_str (col r ''order_user_rank''))"
      "srow' ! 22 = CStr (rank_str (col r ''verify_amount_rank''))"
      "det' ! 31 ! 1 = CStr (rank_display
         (region_display e (case get_shop_info_mapping e db_same_names None (shop_id r) of
                              None \<Rightarrow> [] | Some i \<Rightarrow> city i)
            (get_region_info_mapping e db_same_names None (shop_id r)))
         (col r ''order_user_rank''))"
      "det' ! 32 ! 1 = CStr (rank_display
         (region_display e (case get_shop_info_mapping e db_same_names None (shop_id r) of
                              None \<Rightarrow> [] | Some i \<Rightarrow> city i)
            (get_region_info_mapping e db_same_names None (shop_id r)))
         (col r ''verify_amount_rank''))"
    using daily_store_cells [of e db_same_names "get_shop_info_mapping e db_same_names None"
        "get_region_info_mapping e db_same_names None" ?d "Suc 0" r] by blast
  have eq: "srow' = srow" "det' = det" using s s' by simp_all
  have rd: "region_display e [] None = []" by (simp add: region_display_def)
  from cells show ?thesis
    unfolding eq o v no_accounts_no_mapping [OF acc] rank_str_absent rank_display_absent
    using wb c0 c1 by (simp add: rd)
qed

end
